theory Spec2Isabelle
  imports Complex_Main "HOL-Library.Word"
begin

section \<open>Values shared by the SDK\<close>

text \<open>
  A \<open>Buffer\<close> is a list of bytes. A \<open>PublicKey\<close> is the 32 bytes it was built from;
  \<open>PublicKey.equals\<close> compares the two keys as numbers, which for keys of the same
  length is equality of the bytes. \<open>BN\<close> values (bn.js) are unbounded integers.
\<close>

type_synonym byte = "8 word"
type_synonym Buffer = "byte list"
type_synonym PublicKey = "byte list"

text \<open>
  The exceptions the SDK can raise: \<open>Error\<close> and \<open>WagerError\<close> carry the message of the
  source, \<open>InvalidGameStateError\<close> the expected and the actual state,
  \<open>RangeError\<close> is Node's out-of-range read on a \<open>Buffer\<close>, \<open>AssertionError\<close> is
  a failed \<open>assert\<close> inside bn.js, and \<open>ExternalError\<close> is whatever a collaborator
  outside the SDK (transport, token library) throws.
\<close>

datatype error =
    Error string
  | WagerError string
  | GameNotFoundError PublicKey
  | InvalidGameStateError nat nat
  | RangeError
  | AssertionError
  | ExternalError string

section \<open>utils.ts: payout arithmetic\<close>

text \<open>
  \<open>BN.muln(num)\<close> multiplies by a JavaScript number and asserts that the number is
  below \<open>0x4000000\<close>; \<open>BN.divn(num)\<close> asserts \<open>num \<le> 0x3ffffff\<close> and divides the
  magnitudes, keeping the sign (truncation towards zero). \<open>BN.sub\<close> is exact.
\<close>

definition BN_muln :: "int \<Rightarrow> int \<Rightarrow> error + int" where
  "BN_muln a num = (if \<bar>num\<bar> < 0x4000000 then Inr (a * num) else Inl AssertionError)"

definition BN_divn :: "int \<Rightarrow> int \<Rightarrow> error + int" where
  "BN_divn a num =
     (if \<bar>num\<bar> \<le> 0x3ffffff then Inr (sgn a * sgn num * (\<bar>a\<bar> div \<bar>num\<bar>))
      else Inl AssertionError)"

record PayoutAmounts =
  winnerAmount :: int
  feeAmount :: int
  totalPot :: int

definition calculatePayouts :: "int \<Rightarrow> int \<Rightarrow> error + PayoutAmounts" where
  "calculatePayouts wager payoutBps =
     (case BN_muln wager 2 of
        Inl e \<Rightarrow> Inl e
      | Inr totalPot' \<Rightarrow>
          (case BN_muln totalPot' payoutBps of
             Inl e \<Rightarrow> Inl e
           | Inr scaled \<Rightarrow>
               (case BN_divn scaled 10000 of
                  Inl e \<Rightarrow> Inl e
                | Inr winnerAmount' \<Rightarrow>
                    Inr \<lparr>winnerAmount = winnerAmount',
                         feeAmount = totalPot' - winnerAmount',
                         totalPot = totalPot'\<rparr>)))"

section \<open>utils.ts: validation and the default nonce\<close>

definition validatePayoutBps :: "int \<Rightarrow> error + unit" where
  "validatePayoutBps bps =
     (if bps \<le> 0 \<or> bps \<ge> 10000
      then Inl (Error ''Payout basis points must be between 1 and 9999'')
      else Inr ())"

text \<open>
  JavaScript numbers are IEEE 754 doubles, here rationals. \<open>Math.random()\<close> returns a
  double that is at least 0 and below 1; the product \<open>Math.random() * 1000000\<close> is the
  double nearest to the exact product, ties to the even significand. \<open>double_round\<close>
  is that rounding for \<open>0 \<le> x < 2^20\<close>, which covers every product formed here:
  \<open>ulp_below\<close> walks down from the binade \<open>[2^19, 2^20)\<close>, whose doubles are
  \<open>2^-33\<close> apart, to the binade of \<open>x\<close>, halving the spacing at each step and
  stopping at the spacing \<open>2^-1074\<close> of the smallest doubles.
\<close>

definition round_half_even :: "rat \<Rightarrow> int" where
  "round_half_even q =
     (let f = \<lfloor>q\<rfloor>; d = q - of_int f
      in if d < 1 / 2 then f
         else if 1 / 2 < d then f + 1
         else if even f then f else f + 1)"

fun ulp_below :: "nat \<Rightarrow> rat \<Rightarrow> rat \<Rightarrow> rat" where
  "ulp_below 0 u x = u"
| "ulp_below (Suc n) u x = (if 2 ^ 52 * u \<le> x then u else ulp_below n (u / 2) x)"

definition double_round :: "rat \<Rightarrow> rat" where
  "double_round x =
     (let u = ulp_below 1041 (1 / 2 ^ 33) x in of_int (round_half_even (x / u)) * u)"

text \<open>The values \<open>Math.random()\<close> can return: the doubles from 0 up to, not including, 1.\<close>

definition Math_random_value :: "rat \<Rightarrow> bool" where
  "Math_random_value r = (0 \<le> r \<and> r < 1 \<and> double_round r = r)"

text \<open>
  \<open>generateNonce\<close>, given the value that \<open>Math.random()\<close> returns:
  \<open>new BN(Math.floor(Math.random() * 1000000))\<close>.
\<close>

definition generateNonce :: "rat \<Rightarrow> int" where
  "generateNonce random = \<lfloor>double_round (random * 1000000)\<rfloor>"

section \<open>types.ts: the game account\<close>

text \<open>
  \<open>enum GameState\<close> with its numeric values. A decoded account keeps the number that
  was read from the state byte: the \<open>as GameState\<close> cast of the decoder checks nothing.
\<close>

datatype GameState = Open | Ready | Paid | Canceled | Expired

fun GameState_value :: "GameState \<Rightarrow> nat" where
  "GameState_value Open = 0"
| "GameState_value Ready = 1"
| "GameState_value Paid = 2"
| "GameState_value Canceled = 3"
| "GameState_value Expired = 4"

text \<open>
  \<open>Partial<CreateGameArgs>\<close>, the options of \<open>createGameWithDefaults\<close>: every field of
  \<open>CreateGameArgs\<close> may be missing.
\<close>

record PartialCreateGameArgs =
  mint :: "PublicKey option"
  wager :: "int option"
  payoutBps :: "int option"
  expiryTs :: "int option"
  resolverPubkey :: "PublicKey option"
  devWallet :: "PublicKey option"
  nonce :: "int option"

record CreateGameArgs =
  mint :: PublicKey
  wager :: int
  payoutBps :: int
  expiryTs :: int
  resolverPubkey :: "PublicKey option"
  devWallet :: PublicKey
  nonce :: "int option"

record GamePDAs =
  gamePda :: PublicKey
  gameBump :: nat
  vaultPda :: "PublicKey option"
  vaultBump :: "nat option"

record GameAccount =
  creator :: PublicKey
  player1 :: PublicKey
  player2 :: PublicKey
  resolver :: PublicKey
  devWallet :: PublicKey
  mint :: PublicKey
  wager :: int
  payoutBps :: int
  state :: nat
  expiryTs :: int
  nonce :: int
  bump :: nat
  vaultBump :: nat

section \<open>Buffers, keys and numbers read from them\<close>

text \<open>
  \<open>Buffer.slice(start, end)\<close> clamps both ends to the buffer, it never fails.
  \<open>readUInt8\<close> and \<open>readUInt16LE\<close> raise a \<open>RangeError\<close> when the bytes they read
  are not all inside the buffer. \<open>new BN(bytes, 'le')\<close> reads a little-endian number.
  \<open>new PublicKey(bytes)\<close> reads the bytes as a big-endian number of at most 32 bytes,
  so fewer than 32 bytes are a key with leading zero bytes (the constructor rejects more
  than 32 bytes, which a slice of width 32 never has). \<open>PublicKey.default\<close> is the key
  of 32 zero bytes.
\<close>

definition slice :: "Buffer \<Rightarrow> nat \<Rightarrow> nat \<Rightarrow> Buffer" where
  "slice data start end' = take (end' - start) (drop start data)"

definition readUInt8 :: "Buffer \<Rightarrow> nat \<Rightarrow> error + nat" where
  "readUInt8 data offset =
     (if offset < length data then Inr (unat (data ! offset)) else Inl RangeError)"

definition readUInt16LE :: "Buffer \<Rightarrow> nat \<Rightarrow> error + nat" where
  "readUInt16LE data offset =
     (if offset + 2 \<le> length data
      then Inr (unat (data ! offset) + 256 * unat (data ! (offset + 1)))
      else Inl RangeError)"

fun BN_le :: "Buffer \<Rightarrow> int" where
  "BN_le [] = 0"
| "BN_le (b # bs) = uint b + 256 * BN_le bs"

definition PublicKey_new :: "Buffer \<Rightarrow> PublicKey" where
  "PublicKey_new bs = replicate (32 - length bs) 0 @ bs"

definition PublicKey_default :: PublicKey where
  "PublicKey_default = replicate 32 0"

section \<open>client.ts: decoding a game account\<close>

definition deserializeGameAccount :: "Buffer \<Rightarrow> error + GameAccount" where
  "deserializeGameAccount data =
     (let offset = 8;
          creator' = PublicKey_new (slice data offset (offset + 32));
          offset = offset + 32;
          player1' = PublicKey_new (slice data offset (offset + 32));
          offset = offset + 32;
          player2' = PublicKey_new (slice data offset (offset + 32));
          offset = offset + 32;
          resolver' = PublicKey_new (slice data offset (offset + 32));
          offset = offset + 32;
          devWallet' = PublicKey_new (slice data offset (offset + 32));
          offset = offset + 32;
          mint' = PublicKey_new (slice data offset (offset + 32));
          offset = offset + 32;
          wager' = BN_le (slice data offset (offset + 8));
          offset = offset + 8
      in case readUInt16LE data offset of
           Inl e \<Rightarrow> Inl e
         | Inr payoutBps' \<Rightarrow>
      (let offset = offset + 2
       in case readUInt8 data offset of
            Inl e \<Rightarrow> Inl e
          | Inr state' \<Rightarrow>
      (let offset = offset + 1;
           expiryTs' = BN_le (slice data offset (offset + 8));
           offset = offset + 8;
           nonce' = BN_le (slice data offset (offset + 8));
           offset = offset + 8
       in case readUInt8 data offset of
            Inl e \<Rightarrow> Inl e
          | Inr bump' \<Rightarrow>
      (let offset = offset + 1
       in case readUInt8 data offset of
            Inl e \<Rightarrow> Inl e
          | Inr vaultBump' \<Rightarrow>
              Inr \<lparr>creator = creator', player1 = player1', player2 = player2',
                   resolver = resolver', devWallet = devWallet', mint = mint',
                   wager = wager', payoutBps = int payoutBps', state = state',
                   expiryTs = expiryTs', nonce = nonce', bump = bump',
                   vaultBump = vaultBump'\<rparr>))))"

text \<open>The helper methods of \<open>GameAccountImpl\<close>.\<close>

definition isNativeSOL :: "PublicKey \<Rightarrow> bool" where
  "isNativeSOL mint' = (mint' = PublicKey_default)"

definition canJoin :: "GameAccount \<Rightarrow> bool" where
  "canJoin g = (state g = GameState_value Open \<and> player2 g = PublicKey_default)"

definition canResolve :: "GameAccount \<Rightarrow> bool" where
  "canResolve g = (state g = GameState_value Ready)"

section \<open>client.ts: scanning accounts by lifecycle state\<close>

text \<open>
  A \<open>memcmp\<close> filter of \<open>getProgramAccounts\<close> holds an offset and the bytes to compare.
  The transport keeps an account when its data carry exactly these bytes at that offset;
  how the bytes are written as text in the request is not part of the model.
  \<open>getProgramAccounts\<close> takes the data of the program's accounts and keeps those that
  satisfy every filter.
\<close>

record memcmp =
  offset :: nat
  bytes :: Buffer

definition memcmp_matches :: "memcmp \<Rightarrow> Buffer \<Rightarrow> bool" where
  "memcmp_matches f data =
     (offset f + length (bytes f) \<le> length data
      \<and> take (length (bytes f)) (drop (offset f) data) = bytes f)"

definition getProgramAccounts :: "Buffer list \<Rightarrow> memcmp list \<Rightarrow> Buffer list" where
  "getProgramAccounts accounts filters =
     filter (\<lambda>data. list_all (\<lambda>f. memcmp_matches f data) filters) accounts"

definition stateOffset :: nat where
  "stateOffset = 8 + 32 * 5 + 8 + 2"

definition getGamesByState_filters :: "GameState \<Rightarrow> memcmp list" where
  "getGamesByState_filters state' =
     [\<lparr>offset = stateOffset, bytes = [of_nat (GameState_value state')]\<rparr>]"

text \<open>
  \<open>getGamesByState\<close>: the accounts that pass the filter are decoded; an account that
  fails to decode is logged and dropped.
\<close>

definition getGamesByState :: "Buffer list \<Rightarrow> GameState \<Rightarrow> GameAccount list" where
  "getGamesByState accounts state' =
     List.map_filter
       (\<lambda>data. case deserializeGameAccount data of Inl e \<Rightarrow> None | Inr g \<Rightarrow> Some g)
       (getProgramAccounts accounts (getGamesByState_filters state'))"

text \<open>
  The offset at which \<open>deserializeGameAccount\<close> reads the state byte: after the 8-byte
  type tag, six keys of 32 bytes, the 8-byte wager and the 2-byte payout fraction.
\<close>

definition decoder_state_offset :: nat where
  "decoder_state_offset = 8 + 32 * 6 + 8 + 2"

section \<open>Example accounts\<close>

text \<open>
  Raw account data in the 229-byte layout, built field by field, for the examples below:
  three keys that differ in their last byte, a stake of 1,000,000,000 (little-endian
  \<open>00 ca 9a 3b 00 00 00 00\<close>), 8500 basis points (\<open>34 21\<close>), and the given state byte.
\<close>

definition key_of :: "byte \<Rightarrow> PublicKey" where
  "key_of b = replicate 31 0 @ [b]"

definition example_account :: "Buffer \<Rightarrow> PublicKey \<Rightarrow> PublicKey \<Rightarrow> byte \<Rightarrow> Buffer" where
  "example_account tag player2' mint' state' =
     tag @ key_of 1 @ key_of 1 @ player2' @ key_of 3 @ key_of 4 @ mint'
       @ [0x00, 0xca, 0x9a, 0x3b, 0, 0, 0, 0] @ [0x34, 0x21] @ [state']
       @ [0, 0, 0, 0, 0, 0, 0, 0] @ [7, 0, 0, 0, 0, 0, 0, 0] @ [255, 0]"

definition example_tag :: Buffer where
  "example_tag = [1, 2, 3, 4, 5, 6, 7, 8]"

definition example_open_account :: Buffer where
  "example_open_account = example_account example_tag PublicKey_default PublicKey_default 0"

definition example_ready_account :: Buffer where
  "example_ready_account = example_account example_tag (key_of 2) PublicKey_default 1"

section \<open>Instructions, transactions and the collaborators outside the SDK\<close>

record AccountMeta =
  pubkey :: PublicKey
  isSigner :: bool
  isWritable :: bool

record TransactionInstruction =
  keys :: "AccountMeta list"
  programId :: PublicKey
  data :: Buffer

type_synonym Transaction = "TransactionInstruction list"

text \<open>
  What the SDK calls and does not implement, over a state \<open>'w\<close> of the ledger:
  the program-address hash of web3.js, the two functions of the token library, the
  read of an account's data (a read leaves the ledger as it is) and the submission of a
  transaction, which returns a signature or fails and yields the ledger after it.
  Each of them may throw.
\<close>

record 'w collaborators =
  findProgramAddressSync :: "Buffer list \<Rightarrow> PublicKey \<Rightarrow> error + PublicKey \<times> nat"
  getAssociatedTokenAddressSync :: "PublicKey \<Rightarrow> PublicKey \<Rightarrow> bool \<Rightarrow> error + PublicKey"
  createAssociatedTokenAccountInstruction ::
    "PublicKey \<Rightarrow> PublicKey \<Rightarrow> PublicKey \<Rightarrow> PublicKey \<Rightarrow> TransactionInstruction"
  getAccountInfo :: "'w \<Rightarrow> PublicKey \<Rightarrow> error + Buffer option"
  sendAndConfirmTransaction ::
    "Transaction \<Rightarrow> PublicKey list \<Rightarrow> 'w \<Rightarrow> (error + string) \<times> 'w"

text \<open>
  The well-known keys, as the bytes of their base58 names:
  \<open>TokenkegQfeZyiNwAJbNbGKPFXCWuBvf9Ss623VQ5DA\<close>,
  \<open>SysvarRent111111111111111111111111111111111\<close>,
  \<open>Fg6PaFpoGXkYsidMpWTK6W2BeZ7FEfcYkg476zPFsLnS\<close>; the system program is
  \<open>11111111111111111111111111111111\<close>, the key of 32 zero bytes.
\<close>

definition TOKEN_PROGRAM_ID :: PublicKey where
  "TOKEN_PROGRAM_ID =
     [6, 221, 246, 225, 215, 101, 161, 147, 217, 203, 225, 70, 206, 235, 121, 172,
      28, 180, 133, 237, 95, 91, 55, 145, 58, 140, 245, 133, 126, 255, 0, 169]"

definition SYSVAR_RENT_PUBKEY :: PublicKey where
  "SYSVAR_RENT_PUBKEY =
     [6, 167, 213, 23, 25, 44, 92, 81, 33, 140, 201, 76, 61, 74, 241, 127,
      88, 218, 238, 8, 155, 161, 253, 68, 227, 219, 217, 138, 0, 0, 0, 0]"

definition WAGER_PROGRAM_ID :: PublicKey where
  "WAGER_PROGRAM_ID =
     [218, 7, 92, 178, 255, 94, 198, 129, 118, 19, 222, 83, 11, 105, 42, 135,
      53, 71, 119, 105, 218, 71, 67, 12, 189, 129, 84, 51, 92, 74, 131, 39]"

definition SystemProgram_programId :: PublicKey where
  "SystemProgram_programId = replicate 32 0"

text \<open>
  \<open>BN.toArrayLike(Buffer, 'le', length)\<close> writes the magnitude in \<open>length\<close>
  little-endian bytes and asserts that it fits.
\<close>

fun le_bytes :: "nat \<Rightarrow> int \<Rightarrow> Buffer" where
  "le_bytes 0 n = []"
| "le_bytes (Suc k) n = of_int (n mod 256) # le_bytes k (n div 256)"

definition BN_toArrayLike_le :: "int \<Rightarrow> nat \<Rightarrow> error + Buffer" where
  "BN_toArrayLike_le n len =
     (if \<bar>n\<bar> < 256 ^ len then Inr (le_bytes len \<bar>n\<bar>) else Inl AssertionError)"

definition seed_game :: Buffer where
  "seed_game = [0x67, 0x61, 0x6d, 0x65]"

definition seed_vault :: Buffer where
  "seed_vault = [0x76, 0x61, 0x75, 0x6c, 0x74]"

section \<open>utils.ts: address derivation and companion token accounts\<close>

definition deriveGamePDAs ::
  "'w collaborators \<Rightarrow> PublicKey \<Rightarrow> int \<Rightarrow> PublicKey \<Rightarrow> PublicKey \<Rightarrow> error + GamePDAs" where
  "deriveGamePDAs env creator' nonce' mint' programId' =
     (case BN_toArrayLike_le nonce' 8 of
        Inl e \<Rightarrow> Inl e
      | Inr nonceBytes \<Rightarrow>
     (case findProgramAddressSync env [seed_game, creator', nonceBytes] programId' of
        Inl e \<Rightarrow> Inl e
      | Inr (gamePda', gameBump') \<Rightarrow>
          if mint' \<noteq> PublicKey_default
          then (case findProgramAddressSync env [seed_vault, gamePda', mint'] programId' of
                  Inl e \<Rightarrow> Inl e
                | Inr (vault, bump') \<Rightarrow>
                    Inr \<lparr>gamePda = gamePda', gameBump = gameBump',
                         vaultPda = Some vault, GamePDAs.vaultBump = Some bump'\<rparr>)
          else Inr \<lparr>gamePda = gamePda', gameBump = gameBump',
                    vaultPda = None, GamePDAs.vaultBump = None\<rparr>))"

definition getOrCreateAssociatedTokenAccount ::
  "'w collaborators \<Rightarrow> 'w \<Rightarrow> PublicKey \<Rightarrow> PublicKey \<Rightarrow> PublicKey
     \<Rightarrow> error + PublicKey \<times> TransactionInstruction option" where
  "getOrCreateAssociatedTokenAccount env w payer mint' owner =
     (case getAssociatedTokenAddressSync env mint' owner False of
        Inl e \<Rightarrow> Inl e
      | Inr associatedToken \<Rightarrow>
          (case getAccountInfo env w associatedToken of
             Inr (Some accountInfo) \<Rightarrow> Inr (associatedToken, None)
           | _ \<Rightarrow>
               Inr (associatedToken,
                    Some (createAssociatedTokenAccountInstruction env
                            payer associatedToken owner mint'))))"

definition meta :: "PublicKey \<Rightarrow> bool \<Rightarrow> bool \<Rightarrow> AccountMeta" where
  "meta k s w = \<lparr>pubkey = k, isSigner = s, isWritable = w\<rparr>"

section \<open>instructions.ts\<close>

text \<open>
  \<open>createCreateGameInstruction\<close>. \<open>random\<close> is the value \<open>Math.random()\<close> returns
  when the arguments carry no nonce. The result is the instruction, the game address and
  the (empty) list of instructions to run before it. The \<open>accounts\<close> object of the
  source is filled and never read; of its block only the \<open>WagerError\<close> for a token mint
  without a vault address has an effect. The two payout bytes are
  \<open>payoutBps & 0xff\<close> and \<open>(payoutBps >> 8) & 0xff\<close>.
\<close>

definition createCreateGameInstruction ::
  "'w collaborators \<Rightarrow> rat \<Rightarrow> PublicKey \<Rightarrow> CreateGameArgs \<Rightarrow> PublicKey
     \<Rightarrow> error + TransactionInstruction \<times> PublicKey \<times> TransactionInstruction list" where
  "createCreateGameInstruction env random creator' args programId' =
     (case validatePayoutBps (CreateGameArgs.payoutBps args) of
        Inl e \<Rightarrow> Inl e
      | Inr u \<Rightarrow>
     (let nonce' = (case CreateGameArgs.nonce args of
                      Some n \<Rightarrow> n
                    | None \<Rightarrow> generateNonce random)
      in case deriveGamePDAs env creator' nonce' (CreateGameArgs.mint args) programId' of
           Inl e \<Rightarrow> Inl e
         | Inr pdas \<Rightarrow>
     (if \<not> isNativeSOL (CreateGameArgs.mint args) \<and> vaultPda pdas = None
      then Inl (WagerError ''Vault PDA is required for SPL tokens'')
      else
     (case BN_toArrayLike_le (CreateGameArgs.wager args) 8 of
        Inl e \<Rightarrow> Inl e
      | Inr wagerBytes \<Rightarrow>
     (case BN_toArrayLike_le (CreateGameArgs.expiryTs args) 8 of
        Inl e \<Rightarrow> Inl e
      | Inr expiryBytes \<Rightarrow>
     (case BN_toArrayLike_le nonce' 8 of
        Inl e \<Rightarrow> Inl e
      | Inr nonceBytes \<Rightarrow>
     (let data' =
            [0]
            @ CreateGameArgs.mint args
            @ wagerBytes
            @ [of_int (CreateGameArgs.payoutBps args),
               of_int (CreateGameArgs.payoutBps args div 256)]
            @ expiryBytes
            @ [if CreateGameArgs.resolverPubkey args \<noteq> None then 1 else 0]
            @ (case CreateGameArgs.resolverPubkey args of Some r \<Rightarrow> r | None \<Rightarrow> replicate 32 0)
            @ nonceBytes;
          instruction =
            \<lparr>keys =
               [meta creator' True True,
                meta (gamePda pdas) False True]
               @ (case vaultPda pdas of Some v \<Rightarrow> [meta v False True] | None \<Rightarrow> [])
               @ (if isNativeSOL (CreateGameArgs.mint args) then []
                  else [meta (CreateGameArgs.mint args) False False])
               @ [meta (CreateGameArgs.devWallet args) False False,
                  meta TOKEN_PROGRAM_ID False False,
                  meta SystemProgram_programId False False,
                  meta SYSVAR_RENT_PUBKEY False False],
             programId = programId',
             data = data'\<rparr>
      in Inr (instruction, gamePda pdas, []))))))))"

text \<open>
  \<open>createJoinGameInstruction\<close>. In token mode the vault address is read with a
  non-null assertion from \<open>deriveGamePDAs\<close>, which returns one for every token mint.
\<close>

definition createJoinGameInstruction ::
  "'w collaborators \<Rightarrow> 'w \<Rightarrow> PublicKey \<Rightarrow> PublicKey \<Rightarrow> GameAccount \<Rightarrow> PublicKey
     \<Rightarrow> error + TransactionInstruction \<times> TransactionInstruction list" where
  "createJoinGameInstruction env w player2' gamePda' gameAccount programId' =
     (let mint' = mint gameAccount;
          accounts = [meta player2' True True, meta gamePda' False True]
      in if \<not> isNativeSOL mint'
         then
           (case getOrCreateAssociatedTokenAccount env w player2' mint' player2' of
              Inl e \<Rightarrow> Inl e
            | Inr (player2TokenAccount, createTokenAccountIx) \<Rightarrow>
           (let preInstructions =
                  (case createTokenAccountIx of Some ix \<Rightarrow> [ix] | None \<Rightarrow> [])
            in case deriveGamePDAs env (creator gameAccount) (nonce gameAccount) mint'
                      programId' of
                 Inl e \<Rightarrow> Inl e
               | Inr pdas \<Rightarrow>
                   Inr (\<lparr>keys =
                           accounts
                           @ [meta player2TokenAccount False True,
                              meta (the (vaultPda pdas)) False True]
                           @ [meta TOKEN_PROGRAM_ID False False,
                              meta SystemProgram_programId False False],
                         programId = programId',
                         data = [1]\<rparr>,
                        preInstructions)))
         else
           Inr (\<lparr>keys =
                   accounts
                   @ [meta SystemProgram_programId False False,
                      meta SystemProgram_programId False False]
                   @ [meta TOKEN_PROGRAM_ID False False,
                      meta SystemProgram_programId False False],
                 programId = programId',
                 data = [1]\<rparr>,
                []))"

definition createResolveGameInstruction ::
  "'w collaborators \<Rightarrow> 'w \<Rightarrow> PublicKey \<Rightarrow> PublicKey \<Rightarrow> PublicKey \<Rightarrow> GameAccount
     \<Rightarrow> PublicKey \<Rightarrow> error + TransactionInstruction \<times> TransactionInstruction list" where
  "createResolveGameInstruction env w resolver' gamePda' winner gameAccount programId' =
     (let mint' = mint gameAccount;
          accounts = [meta resolver' True True, meta gamePda' False True];
          tail' = [meta winner False True,
                   meta (devWallet gameAccount) False True,
                   meta TOKEN_PROGRAM_ID False False,
                   meta SystemProgram_programId False False];
          data' = [2] @ winner
      in if \<not> isNativeSOL mint'
         then
           (case getOrCreateAssociatedTokenAccount env w resolver' mint' winner of
              Inl e \<Rightarrow> Inl e
            | Inr (winnerTokenAccount, createWinnerTokenAccountIx) \<Rightarrow>
           (case getOrCreateAssociatedTokenAccount env w resolver' mint'
                   (devWallet gameAccount) of
              Inl e \<Rightarrow> Inl e
            | Inr (devTokenAccount, createDevTokenAccountIx) \<Rightarrow>
           (let preInstructions =
                  (case createWinnerTokenAccountIx of Some ix \<Rightarrow> [ix] | None \<Rightarrow> [])
                  @ (case createDevTokenAccountIx of Some ix \<Rightarrow> [ix] | None \<Rightarrow> [])
            in case deriveGamePDAs env (creator gameAccount) (nonce gameAccount) mint'
                      programId' of
                 Inl e \<Rightarrow> Inl e
               | Inr pdas \<Rightarrow>
                   Inr (\<lparr>keys =
                           accounts
                           @ [meta winnerTokenAccount False True,
                              meta devTokenAccount False True,
                              meta (the (vaultPda pdas)) False True]
                           @ tail',
                         programId = programId',
                         data = data'\<rparr>,
                        preInstructions))))
         else
           Inr (\<lparr>keys =
                   accounts
                   @ [meta SystemProgram_programId False False,
                      meta SystemProgram_programId False False,
                      meta SystemProgram_programId False False]
                   @ tail',
                 programId = programId',
                 data = data'\<rparr>,
                []))"

definition createCancelGameInstruction ::
  "'w collaborators \<Rightarrow> 'w \<Rightarrow> PublicKey \<Rightarrow> PublicKey \<Rightarrow> GameAccount \<Rightarrow> PublicKey
     \<Rightarrow> error + TransactionInstruction \<times> TransactionInstruction list" where
  "createCancelGameInstruction env w authority gamePda' gameAccount programId' =
     (let mint' = mint gameAccount;
          accounts = [meta authority True True, meta gamePda' False True];
          joined = (player2 gameAccount \<noteq> PublicKey_default);
          tail' = [meta (creator gameAccount) False True]
                  @ (if joined then [meta (player2 gameAccount) False True]
                     else [meta SystemProgram_programId False False])
                  @ [meta TOKEN_PROGRAM_ID False False,
                     meta SystemProgram_programId False False]
      in if \<not> isNativeSOL mint'
         then
           (case getOrCreateAssociatedTokenAccount env w authority mint'
                   (creator gameAccount) of
              Inl e \<Rightarrow> Inl e
            | Inr (creatorTokenAccount, createCreatorTokenAccountIx) \<Rightarrow>
           (case (if joined
                  then getOrCreateAssociatedTokenAccount env w authority mint'
                         (player2 gameAccount)
                  else Inr (SystemProgram_programId, None)) of
              Inl e \<Rightarrow> Inl e
            | Inr (player2TokenAccount, createPlayer2TokenAccountIx) \<Rightarrow>
           (let preInstructions =
                  (case createCreatorTokenAccountIx of Some ix \<Rightarrow> [ix] | None \<Rightarrow> [])
                  @ (case createPlayer2TokenAccountIx of Some ix \<Rightarrow> [ix] | None \<Rightarrow> [])
            in case deriveGamePDAs env (creator gameAccount) (nonce gameAccount) mint'
                      programId' of
                 Inl e \<Rightarrow> Inl e
               | Inr pdas \<Rightarrow>
                   Inr (\<lparr>keys =
                           accounts
                           @ [meta creatorTokenAccount False True,
                              meta player2TokenAccount False True,
                              meta (the (vaultPda pdas)) False True]
                           @ tail',
                         programId = programId',
                         data = [3]\<rparr>,
                        preInstructions))))
         else
           Inr (\<lparr>keys =
                   accounts
                   @ [meta SystemProgram_programId False False,
                      meta SystemProgram_programId False False,
                      meta SystemProgram_programId False False]
                   @ tail',
                 programId = programId',
                 data = [3]\<rparr>,
                []))"

definition createUpdateResolverInstruction ::
  "PublicKey \<Rightarrow> PublicKey \<Rightarrow> PublicKey \<Rightarrow> GameAccount \<Rightarrow> PublicKey
     \<Rightarrow> TransactionInstruction" where
  "createUpdateResolverInstruction creator' gamePda' newResolver gameAccount programId' =
     \<lparr>keys = [meta creator' True True, meta gamePda' False True],
      programId = programId',
      data = [4] @ newResolver\<rparr>"

section \<open>client.ts: the operations of WagerClient\<close>

text \<open>
  Every operation takes the collaborators, the ledger before the call and the program
  id of the client, and returns its result or error together with the ledger after the
  call. A \<open>Signer\<close> is given by its public key. An operation that raises before it
  reaches \<open>sendAndConfirmTransaction\<close> submits nothing and leaves the ledger as it was.
\<close>

definition getGame :: "'w collaborators \<Rightarrow> 'w \<Rightarrow> PublicKey \<Rightarrow> error + GameAccount" where
  "getGame env w gamePda' =
     (case getAccountInfo env w gamePda' of
        Inl e \<Rightarrow> Inl e
      | Inr None \<Rightarrow> Inl (GameNotFoundError gamePda')
      | Inr (Some accountData) \<Rightarrow> deserializeGameAccount accountData)"

definition createGame ::
  "'w collaborators \<Rightarrow> 'w \<Rightarrow> rat \<Rightarrow> PublicKey \<Rightarrow> CreateGameArgs \<Rightarrow> PublicKey
     \<Rightarrow> (error + string \<times> PublicKey) \<times> 'w" where
  "createGame env w random creator' args programId' =
     (case createCreateGameInstruction env random creator' args programId' of
        Inl e \<Rightarrow> (Inl e, w)
      | Inr (instruction, gamePda', preInstructions) \<Rightarrow>
          (case sendAndConfirmTransaction env (preInstructions @ [instruction]) [creator'] w of
             (Inl e, w') \<Rightarrow> (Inl e, w')
           | (Inr signature, w') \<Rightarrow> (Inr (signature, gamePda'), w')))"

definition joinGame ::
  "'w collaborators \<Rightarrow> 'w \<Rightarrow> PublicKey \<Rightarrow> PublicKey \<Rightarrow> PublicKey
     \<Rightarrow> (error + string) \<times> 'w" where
  "joinGame env w player2' gamePda' programId' =
     (case getGame env w gamePda' of
        Inl e \<Rightarrow> (Inl e, w)
      | Inr gameAccount \<Rightarrow>
          if \<not> canJoin gameAccount
          then (Inl (InvalidGameStateError (GameState_value Open) (state gameAccount)), w)
          else
            (case createJoinGameInstruction env w player2' gamePda' gameAccount programId' of
               Inl e \<Rightarrow> (Inl e, w)
             | Inr (instruction, preInstructions) \<Rightarrow>
                 sendAndConfirmTransaction env (preInstructions @ [instruction]) [player2'] w))"

definition resolveGame ::
  "'w collaborators \<Rightarrow> 'w \<Rightarrow> PublicKey \<Rightarrow> PublicKey \<Rightarrow> PublicKey \<Rightarrow> PublicKey
     \<Rightarrow> (error + string \<times> PayoutAmounts) \<times> 'w" where
  "resolveGame env w resolver' gamePda' winner programId' =
     (case getGame env w gamePda' of
        Inl e \<Rightarrow> (Inl e, w)
      | Inr gameAccount \<Rightarrow>
          if \<not> canResolve gameAccount
          then (Inl (InvalidGameStateError (GameState_value Ready) (state gameAccount)), w)
          else if winner \<noteq> player1 gameAccount \<and> winner \<noteq> player2 gameAccount
          then (Inl (WagerError ''Winner must be one of the two players''), w)
          else
            (case calculatePayouts (wager gameAccount) (payoutBps gameAccount) of
               Inl e \<Rightarrow> (Inl e, w)
             | Inr payouts \<Rightarrow>
            (case createResolveGameInstruction env w resolver' gamePda' winner gameAccount
                    programId' of
               Inl e \<Rightarrow> (Inl e, w)
             | Inr (instruction, preInstructions) \<Rightarrow>
                 (case sendAndConfirmTransaction env (preInstructions @ [instruction])
                         [resolver'] w of
                    (Inl e, w') \<Rightarrow> (Inl e, w')
                  | (Inr signature, w') \<Rightarrow> (Inr (signature, payouts), w')))))"

text \<open>
  \<open>BN.toNumber()\<close> asserts that the number fits 53 bits. \<open>isExpired\<close> compares a
  timestamp with the clock, \<open>now\<close> being \<open>Math.floor(Date.now() / 1000)\<close>.
\<close>

definition BN_toNumber :: "int \<Rightarrow> error + int" where
  "BN_toNumber n = (if \<bar>n\<bar> < 2 ^ 53 then Inr n else Inl AssertionError)"

definition isExpired :: "int \<Rightarrow> int \<Rightarrow> error + bool" where
  "isExpired now timestamp =
     (case BN_toNumber timestamp of Inl e \<Rightarrow> Inl e | Inr t \<Rightarrow> Inr (t \<le> now))"

definition cancelIfExpired ::
  "'w collaborators \<Rightarrow> 'w \<Rightarrow> int \<Rightarrow> PublicKey \<Rightarrow> PublicKey \<Rightarrow> PublicKey
     \<Rightarrow> (error + string) \<times> 'w" where
  "cancelIfExpired env w now authority gamePda' programId' =
     (case getGame env w gamePda' of
        Inl e \<Rightarrow> (Inl e, w)
      | Inr gameAccount \<Rightarrow>
          (case isExpired now (expiryTs gameAccount) of
             Inl e \<Rightarrow> (Inl e, w)
           | Inr expired \<Rightarrow>
               if \<not> expired then (Inl (WagerError ''Game has not expired yet''), w)
               else
                 (case createCancelGameInstruction env w authority gamePda' gameAccount
                         programId' of
                    Inl e \<Rightarrow> (Inl e, w)
                  | Inr (instruction, preInstructions) \<Rightarrow>
                      sendAndConfirmTransaction env (preInstructions @ [instruction])
                        [authority] w)))"

definition updateResolver ::
  "'w collaborators \<Rightarrow> 'w \<Rightarrow> PublicKey \<Rightarrow> PublicKey \<Rightarrow> PublicKey \<Rightarrow> PublicKey
     \<Rightarrow> (error + string) \<times> 'w" where
  "updateResolver env w creator' gamePda' newResolver programId' =
     (case getGame env w gamePda' of
        Inl e \<Rightarrow> (Inl e, w)
      | Inr gameAccount \<Rightarrow>
          if state gameAccount \<noteq> GameState_value Open
          then (Inl (WagerError ''Cannot update resolver after deposits have been made''), w)
          else
            sendAndConfirmTransaction env
              [createUpdateResolverInstruction creator' gamePda' newResolver gameAccount
                 programId']
              [creator'] w)"

text \<open>
  \<open>createGameWithDefaults\<close>: the options that are read, each of them optional. A
  payout fraction of 0 counts as missing (\<open>options.payoutBps || 8500\<close>); a missing nonce
  is drawn by \<open>generateNonce\<close>; a missing expiry is \<open>hoursFromNow(24)\<close>.
\<close>

definition hoursFromNow :: "int \<Rightarrow> int \<Rightarrow> int" where
  "hoursFromNow now hours = now + hours * 3600"

definition createGameWithDefaults ::
  "'w collaborators \<Rightarrow> 'w \<Rightarrow> rat \<Rightarrow> int \<Rightarrow> PublicKey \<Rightarrow> int \<Rightarrow> PublicKey
     \<Rightarrow> PartialCreateGameArgs \<Rightarrow> PublicKey
     \<Rightarrow> (error + string \<times> PublicKey \<times> CreateGameArgs) \<times> 'w" where
  "createGameWithDefaults env w random now creator' wager' mint' options programId' =
     (let args =
            \<lparr>CreateGameArgs.mint = mint',
             CreateGameArgs.wager = wager',
             CreateGameArgs.payoutBps =
               (case PartialCreateGameArgs.payoutBps options of
                  Some p \<Rightarrow> if p = 0 then 8500 else p
                | None \<Rightarrow> 8500),
             CreateGameArgs.expiryTs =
               (case PartialCreateGameArgs.expiryTs options of
                  Some t \<Rightarrow> t
                | None \<Rightarrow> hoursFromNow now 24),
             CreateGameArgs.resolverPubkey =
               Some (case PartialCreateGameArgs.resolverPubkey options of
                       Some r \<Rightarrow> r
                     | None \<Rightarrow> creator'),
             CreateGameArgs.devWallet =
               (case PartialCreateGameArgs.devWallet options of
                  Some d \<Rightarrow> d
                | None \<Rightarrow> creator'),
             CreateGameArgs.nonce =
               Some (case PartialCreateGameArgs.nonce options of
                       Some n \<Rightarrow> n
                     | None \<Rightarrow> generateNonce random)\<rparr>
      in case createGame env w random creator' args programId' of
           (Inl e, w') \<Rightarrow> (Inl e, w')
         | (Inr (signature, gamePda'), w') \<Rightarrow> (Inr (signature, gamePda', args), w'))"

section \<open>An example ledger\<close>

text \<open>
  A ledger for the examples: the stored accounts and the transactions submitted so far.
  Its collaborators read accounts from the list, append every submitted transaction,
  and derive addresses by a stand-in for the hash (the first 32 bytes of the seeds
  followed by the program id), which is all the examples need.
\<close>

record ledger =
  stored :: "(PublicKey \<times> Buffer) list"
  submitted :: "Transaction list"

definition ASSOCIATED_TOKEN_PROGRAM_ID :: PublicKey where
  "ASSOCIATED_TOKEN_PROGRAM_ID =
     [140, 151, 37, 143, 78, 36, 137, 241, 187, 61, 16, 41, 20, 142, 13, 131,
      11, 90, 19, 153, 218, 255, 16, 132, 4, 142, 123, 216, 219, 233, 248, 89]"

definition example_env :: "ledger collaborators" where
  "example_env =
     \<lparr>findProgramAddressSync = (\<lambda>seeds pid. Inr (take 32 (concat seeds @ pid), 255)),
      getAssociatedTokenAddressSync =
        (\<lambda>mint' owner allowOwnerOffCurve. Inr (take 32 ([0x61, 0x74, 0x61] @ owner))),
      createAssociatedTokenAccountInstruction =
        (\<lambda>payer associatedToken owner mint'.
           \<lparr>keys = [meta payer True True, meta associatedToken False True,
                    meta owner False False, meta mint' False False,
                    meta SystemProgram_programId False False,
                    meta TOKEN_PROGRAM_ID False False],
            programId = ASSOCIATED_TOKEN_PROGRAM_ID,
            data = []\<rparr>),
      getAccountInfo = (\<lambda>w k. Inr (map_of (stored w) k)),
      sendAndConfirmTransaction =
        (\<lambda>tx signers w. (Inr ''signature'', w\<lparr>submitted := submitted w @ [tx]\<rparr>))\<rparr>"

definition example_game_address :: PublicKey where
  "example_game_address = key_of 0x67"

definition example_token_mint :: PublicKey where
  "example_token_mint = key_of 0x6d"

definition example_ledger :: "Buffer \<Rightarrow> ledger" where
  "example_ledger accountData =
     \<lparr>stored = [(example_game_address, accountData)], submitted = []\<rparr>"

definition example_args :: "PublicKey \<Rightarrow> int \<Rightarrow> int \<Rightarrow> int \<Rightarrow> CreateGameArgs" where
  "example_args mint' wager' payoutBps' expiryTs' =
     \<lparr>CreateGameArgs.mint = mint',
      CreateGameArgs.wager = wager',
      CreateGameArgs.payoutBps = payoutBps',
      CreateGameArgs.expiryTs = expiryTs',
      CreateGameArgs.resolverPubkey = Some (key_of 3),
      CreateGameArgs.devWallet = key_of 4,
      CreateGameArgs.nonce = Some 7\<rparr>"

definition example_game :: "PublicKey \<Rightarrow> PublicKey \<Rightarrow> nat \<Rightarrow> GameAccount" where
  "example_game player2' mint' state' =
     \<lparr>creator = key_of 1, player1 = key_of 1, player2 = player2',
      resolver = key_of 3, devWallet = key_of 4, mint = mint',
      wager = 1000000000, payoutBps = 8500, state = state',
      expiryTs = 0, nonce = 7, bump = 255, vaultBump = 0\<rparr>"

text \<open>
  The vault address of a game, as the instruction builders obtain it: the \<open>vaultPda\<close>
  of \<open>deriveGamePDAs\<close>, which is absent in native mode.
\<close>

definition vault_address ::
  "'w collaborators \<Rightarrow> PublicKey \<Rightarrow> int \<Rightarrow> PublicKey \<Rightarrow> PublicKey \<Rightarrow> PublicKey option" where
  "vault_address env creator' nonce' mint' programId' =
     (case deriveGamePDAs env creator' nonce' mint' programId' of
        Inl e \<Rightarrow> None
      | Inr pdas \<Rightarrow> vaultPda pdas)"

text \<open>
  The five instructions built for an example game of the given stake kind: created by
  key 1 with stake 1,000,000,000, joined by key 2, resolved by key 3 in favour of key 2,
  cancelled by key 1, and its resolver changed to key 5.
\<close>

definition example_create ::
  "PublicKey \<Rightarrow> error + TransactionInstruction \<times> PublicKey \<times> TransactionInstruction list" where
  "example_create mint' =
     createCreateGameInstruction example_env (1 / 2) (key_of 1)
       (example_args mint' 1000000000 8500 0) WAGER_PROGRAM_ID"

definition example_join ::
  "PublicKey \<Rightarrow> error + TransactionInstruction \<times> TransactionInstruction list" where
  "example_join mint' =
     createJoinGameInstruction example_env (example_ledger []) (key_of 2)
       example_game_address (example_game PublicKey_default mint' 0) WAGER_PROGRAM_ID"

definition example_resolve ::
  "PublicKey \<Rightarrow> error + TransactionInstruction \<times> TransactionInstruction list" where
  "example_resolve mint' =
     createResolveGameInstruction example_env (example_ledger []) (key_of 3)
       example_game_address (key_of 2) (example_game (key_of 2) mint' 1) WAGER_PROGRAM_ID"

definition example_cancel ::
  "PublicKey \<Rightarrow> error + TransactionInstruction \<times> TransactionInstruction list" where
  "example_cancel mint' =
     createCancelGameInstruction example_env (example_ledger []) (key_of 1)
       example_game_address (example_game (key_of 2) mint' 1) WAGER_PROGRAM_ID"


section \<open>The authority that receives the instructions\<close>

text \<open>
  Modelled from the spec: the authority that enforces the escrow state machine, that is
  the on-chain program which receives the join and resolver-update instructions. Its
  code is not among the sources of the SDK, which only builds and submits the
  instructions. Section 7 of the spec names its error kinds and Section 4.1 gives the
  two transitions below, guard by guard in the order the spec lists them; an operation
  that fails has no effect on the record (Section 5). The record is the Escrow Record
  of Section 3, with the fields of \<open>GameAccount\<close>, together with the units held in
  escrow for it.
\<close>

datatype authority_error =
    InvalidConfiguration
  | WrongState
  | Unauthorized
  | SelfJoinForbidden
  | InvalidWinner
  | StakeKindMismatch
  | NotYetExpired
  | Overflow

record escrow =
  account :: GameAccount
  escrowed :: int

text \<open>
  Modelled from the spec: the join transition of the authority (Open to Ready). "Any
  caller other than the creator may join by depositing exactly \<open>stake_amount\<close> of the
  matching stake-kind. Fails with \<open>WrongState\<close> if not Open, \<open>SelfJoinForbidden\<close> if
  joiner equals creator, \<open>StakeKindMismatch\<close> if the joiner's deposit is not the
  record's declared kind. Side effect: joiner's stake moved into escrow; \<open>player_two\<close>
  set; state to Ready."
\<close>

definition authority_join ::
  "escrow \<Rightarrow> PublicKey \<Rightarrow> PublicKey \<Rightarrow> (authority_error + unit) \<times> escrow" where
  "authority_join e joiner deposit_kind =
     (if state (account e) \<noteq> GameState_value Open then (Inl WrongState, e)
      else if joiner = creator (account e) then (Inl SelfJoinForbidden, e)
      else if deposit_kind \<noteq> mint (account e) then (Inl StakeKindMismatch, e)
      else (Inr (),
            e\<lparr>account := (account e)\<lparr>player2 := joiner,
                                       state := GameState_value Ready\<rparr>,
              escrowed := escrowed e + wager (account e)\<rparr>))"

text \<open>
  Modelled from the spec: the resolver update of the authority. "Only the creator, only
  while state==Open (i.e., before any deposit beyond the creator's own), may change
  \<open>resolver\<close>. Fails with \<open>DepositsAlreadyMade\<close> (modeled as WrongState) otherwise."
\<close>

definition authority_update_resolver ::
  "escrow \<Rightarrow> PublicKey \<Rightarrow> PublicKey \<Rightarrow> (authority_error + unit) \<times> escrow" where
  "authority_update_resolver e caller new_resolver =
     (if caller = creator (account e) \<and> state (account e) = GameState_value Open
      then (Inr (), e\<lparr>account := (account e)\<lparr>resolver := new_resolver\<rparr>\<rparr>)
      else (Inl WrongState, e))"

definition example_escrow :: "GameAccount \<Rightarrow> escrow" where
  "example_escrow g =
     \<lparr>account = g,
      escrowed = (if state g = GameState_value Open then wager g else 2 * wager g)\<rparr>"

section \<open>Payout calculator\<close>

lemma trunc_div_nonneg:
  fixes x :: int
  assumes "0 \<le> x"
  shows "sgn x * (\<bar>x\<bar> div n) = x div n"
proof (cases "x = 0")
  case True
  then show ?thesis by simp
next
  case False
  with assms have "0 < x" by simp
  then show ?thesis by simp
qed

lemma calculatePayouts_nonneg:
  assumes "0 \<le> w" and "0 \<le> bps" and "bps < 0x4000000"
  shows "calculatePayouts w bps =
           Inr \<lparr>winnerAmount = (w * 2 * bps) div 10000,
                feeAmount = w * 2 - (w * 2 * bps) div 10000,
                totalPot = w * 2\<rparr>"
proof -
  have "0 \<le> w * 2 * bps"
    using assms by simp
  then have "sgn (w * 2 * bps) * (\<bar>w * 2 * bps\<bar> div 10000)
               = (w * 2 * bps) div 10000"
    by (rule trunc_div_nonneg)
  then show ?thesis
    using assms by (simp add: calculatePayouts_def BN_muln_def BN_divn_def)
qed

text \<open>
  C1. For every stake amount (a non-negative integer, in particular every u64) and every
  payout fraction from 1 to 9999 basis points, \<open>calculatePayouts\<close> returns
  \<open>total_pot = stake_amount * 2\<close>, \<open>winner_amount = floor(total_pot * bps / 10000)\<close>
  and \<open>fee_amount = total_pot - winner_amount\<close>, so that winner and fee add up to
  twice the stake exactly; a stake of 1,000,000,000 at 8500 basis points gives a pot of
  2,000,000,000, 1,700,000,000 for the winner and a fee of 300,000,000.
\<close>

theorem calculatePayouts_split:
  "(0 \<le> stake_amount \<and> 1 \<le> payout_fraction_bps \<and> payout_fraction_bps \<le> 9999 \<longrightarrow>
      (\<exists>p. calculatePayouts stake_amount payout_fraction_bps = Inr p
         \<and> totalPot p = stake_amount * 2
         \<and> winnerAmount p = (totalPot p * payout_fraction_bps) div 10000
         \<and> real_of_int (winnerAmount p)
             = of_int \<lfloor>real_of_int (totalPot p * payout_fraction_bps) / 10000\<rfloor>
         \<and> feeAmount p = totalPot p - winnerAmount p
         \<and> winnerAmount p + feeAmount p = stake_amount * 2))
   \<and> calculatePayouts 1000000000 8500
       = Inr \<lparr>winnerAmount = 1700000000, feeAmount = 300000000, totalPot = 2000000000\<rparr>"
proof (intro conjI impI)
  assume h: "0 \<le> stake_amount \<and> 1 \<le> payout_fraction_bps \<and> payout_fraction_bps \<le> 9999"
  then have eq: "calculatePayouts stake_amount payout_fraction_bps =
           Inr \<lparr>winnerAmount = (stake_amount * 2 * payout_fraction_bps) div 10000,
                feeAmount = stake_amount * 2
                              - (stake_amount * 2 * payout_fraction_bps) div 10000,
                totalPot = stake_amount * 2\<rparr>"
    by (intro calculatePayouts_nonneg) simp_all
  have fl: "\<lfloor>real_of_int (stake_amount * 2 * payout_fraction_bps) / 10000\<rfloor>
              = (stake_amount * 2 * payout_fraction_bps) div 10000"
    using floor_divide_of_int_eq [of "stake_amount * 2 * payout_fraction_bps" "10000::int"]
    by simp
  show "\<exists>p. calculatePayouts stake_amount payout_fraction_bps = Inr p
         \<and> totalPot p = stake_amount * 2
         \<and> winnerAmount p = (totalPot p * payout_fraction_bps) div 10000
         \<and> real_of_int (winnerAmount p)
             = of_int \<lfloor>real_of_int (totalPot p * payout_fraction_bps) / 10000\<rfloor>
         \<and> feeAmount p = totalPot p - winnerAmount p
         \<and> winnerAmount p + feeAmount p = stake_amount * 2"
    unfolding eq using fl by simp
next
  show "calculatePayouts 1000000000 8500
       = Inr \<lparr>winnerAmount = 1700000000, feeAmount = 300000000, totalPot = 2000000000\<rparr>"
    by (simp add: calculatePayouts_def BN_muln_def BN_divn_def)
qed

theorem calculatePayouts_split_witness:
  "(0::int) \<le> 1000000000 \<and> (1::int) \<le> 8500 \<and> (8500::int) \<le> 9999
   \<and> (\<exists>p. calculatePayouts 1000000000 8500 = Inr p
         \<and> totalPot p = 2000000000
         \<and> winnerAmount p = 1700000000
         \<and> feeAmount p = 300000000
         \<and> winnerAmount p + feeAmount p = 1000000000 * 2)"
  using calculatePayouts_split [of 1000000000 8500] by auto

text \<open>
  C4 (as stated, refuted at a concrete input). The claim says that a stake above
  \<open>u64::MAX / 2 = 9223372036854775807\<close> makes \<open>calculatePayouts\<close> fail with an
  overflow error. At the stake 9223372036854775808 and 8500 basis points the function
  returns a result instead, with a pot of \<open>2^64\<close>.
\<close>

theorem calculatePayouts_overflow_counterexample:
  "calculatePayouts 9223372036854775808 8500
     = Inr \<lparr>winnerAmount = 15679732462653118873,
            feeAmount = 2767011611056432743,
            totalPot = 18446744073709551616\<rparr>"
  by (simp add: calculatePayouts_def BN_muln_def BN_divn_def)

text \<open>
  C4 (amended). \<open>calculatePayouts\<close> has no overflow detection: bn.js integers are
  unbounded, so for every stake above \<open>u64::MAX / 2\<close> and every payout fraction from 1
  to 9999 basis points it returns a result whose \<open>total_pot\<close> is exactly twice the
  stake, a value above \<open>u64::MAX = 18446744073709551615\<close>, and whose winner and fee
  amounts still add up to the pot.
\<close>

theorem calculatePayouts_no_overflow_check:
  assumes "9223372036854775807 < stake_amount"
    and "1 \<le> payout_fraction_bps" and "payout_fraction_bps \<le> 9999"
  shows "\<exists>p. calculatePayouts stake_amount payout_fraction_bps = Inr p
           \<and> totalPot p = stake_amount * 2
           \<and> 18446744073709551615 < totalPot p
           \<and> winnerAmount p + feeAmount p = totalPot p"
proof -
  have "calculatePayouts stake_amount payout_fraction_bps =
           Inr \<lparr>winnerAmount = (stake_amount * 2 * payout_fraction_bps) div 10000,
                feeAmount = stake_amount * 2
                              - (stake_amount * 2 * payout_fraction_bps) div 10000,
                totalPot = stake_amount * 2\<rparr>"
    using assms by (intro calculatePayouts_nonneg) simp_all
  then show ?thesis
    using assms by simp
qed

theorem calculatePayouts_no_overflow_check_witness:
  "(9223372036854775807::int) < 9223372036854775808 \<and> (1::int) \<le> 8500
   \<and> (8500::int) \<le> 9999
   \<and> (\<exists>p. calculatePayouts 9223372036854775808 8500 = Inr p
         \<and> totalPot p = 9223372036854775808 * 2
         \<and> 18446744073709551615 < totalPot p
         \<and> winnerAmount p + feeAmount p = totalPot p)"
  using calculatePayouts_no_overflow_check [of 9223372036854775808 8500] by simp
section \<open>Account layout codec and state filter\<close>

lemma deserializeGameAccount_short:
  assumes "length buf < 229"
  shows "deserializeGameAccount buf = Inl RangeError"
  using assms
  by (simp add: deserializeGameAccount_def readUInt8_def readUInt16LE_def Let_def)

lemma deserializeGameAccount_long:
  assumes "229 \<le> length buf"
  shows "\<exists>g. deserializeGameAccount buf = Inr g"
  using assms
  by (simp add: deserializeGameAccount_def readUInt8_def readUInt16LE_def Let_def)

lemma deserializeGameAccount_skips_tag:
  assumes "length tag = 8" and "length tag' = 8"
  shows "deserializeGameAccount (tag @ body) = deserializeGameAccount (tag' @ body)"
  using assms
  by (simp add: deserializeGameAccount_def readUInt8_def readUInt16LE_def Let_def slice_def
      nth_append)

text \<open>
  C2 (the code at a failing input). The claim places the state filter at offset
  \<open>8 + 32*6 + 8 + 2 = 210\<close>, where the decoder reads the state byte, and says that the
  filter of \<open>getGamesByState\<close> matches every well-formed record in the state asked for.
  The filter is built with \<open>8 + 32*5 + 8 + 2 = 178\<close>, a byte inside the stake-kind
  field. The example is a well-formed 229-byte record of a native-stake game whose state
  byte is Ready: the decoder reads Ready, the scan for Ready games does not return it,
  and the scan for Open games does.
\<close>

theorem getGamesByState_wrong_offset:
  "length example_ready_account = 229
   \<and> map_sum id state (deserializeGameAccount example_ready_account)
       = Inr (GameState_value Ready)
   \<and> stateOffset = 178 \<and> decoder_state_offset = 210
   \<and> getGamesByState [example_ready_account] Ready = []
   \<and> map state (getGamesByState [example_ready_account] Open) = [GameState_value Ready]"
  by code_simp

text \<open>
  C8 (as stated, refuted at a concrete input). The claim says that decoding fails when
  the leading 8-byte type tag is not the expected one. Two 229-byte buffers that differ
  only in their tag (\<open>01 02 .. 08\<close> and eight bytes \<open>ff\<close>) both decode, to the same
  record: whatever tag is expected, one of them does not carry it.
\<close>

theorem deserializeGameAccount_tag_counterexample:
  "length (example_account example_tag PublicKey_default PublicKey_default 0) = 229
   \<and> length (example_account (replicate 8 0xff) PublicKey_default PublicKey_default 0) = 229
   \<and> take 8 (example_account example_tag PublicKey_default PublicKey_default 0)
       \<noteq> take 8 (example_account (replicate 8 0xff) PublicKey_default PublicKey_default 0)
   \<and> map_sum id state
        (deserializeGameAccount
           (example_account (replicate 8 0xff) PublicKey_default PublicKey_default 0))
       = Inr 0
   \<and> deserializeGameAccount
        (example_account example_tag PublicKey_default PublicKey_default 0)
       = deserializeGameAccount
           (example_account (replicate 8 0xff) PublicKey_default PublicKey_default 0)"
  by code_simp

text \<open>
  C8 (amended). Decoding fails, with the buffer's out-of-range read error, on every
  buffer shorter than 229 bytes, and no record is returned from it. The leading 8-byte
  type tag is skipped and never compared: every buffer of at least 229 bytes decodes,
  and two buffers that differ only in their tag decode alike.
\<close>

theorem deserializeGameAccount_checks_length_only:
  "(length short < 229 \<longrightarrow> deserializeGameAccount short = Inl RangeError)
   \<and> (229 \<le> length long \<longrightarrow> (\<exists>g. deserializeGameAccount long = Inr g))
   \<and> (length tag = 8 \<and> length tag' = 8 \<longrightarrow>
        deserializeGameAccount (tag @ body) = deserializeGameAccount (tag' @ body))"
  using deserializeGameAccount_short [of short] deserializeGameAccount_long [of long]
    deserializeGameAccount_skips_tag [of tag tag' body]
  by blast

theorem deserializeGameAccount_checks_length_only_witness:
  "length (replicate 228 (0::byte)) < 229
   \<and> deserializeGameAccount (replicate 228 0) = Inl RangeError
   \<and> 229 \<le> length example_open_account
   \<and> (\<exists>g. deserializeGameAccount example_open_account = Inr g)
   \<and> length example_tag = 8 \<and> length (replicate 8 (0xff::byte)) = 8
   \<and> deserializeGameAccount (example_tag @ replicate 221 0)
       = deserializeGameAccount (replicate 8 0xff @ replicate 221 0)"
proof -
  have len: "length example_open_account = 229"
    by code_simp
  have tag: "length example_tag = 8"
    by (simp add: example_tag_def)
  show ?thesis
    using deserializeGameAccount_checks_length_only
      [of "replicate 228 0" example_open_account example_tag "replicate 8 0xff"
          "replicate 221 0"]
      len tag
    by simp
qed

section \<open>Account lists of the instructions\<close>

lemma deriveGamePDAs_native:
  assumes "deriveGamePDAs env c n PublicKey_default pid = Inr pdas"
  shows "vaultPda pdas = None"
  using assms
  by (auto simp: deriveGamePDAs_def split: sum.splits prod.splits)

lemma deriveGamePDAs_token:
  assumes "m \<noteq> PublicKey_default" and "deriveGamePDAs env c n m pid = Inr pdas"
  shows "\<exists>v. vaultPda pdas = Some v"
  using assms
  by (auto simp: deriveGamePDAs_def split: sum.splits prod.splits)


lemma create_native_keys:
  assumes "isNativeSOL (CreateGameArgs.mint args)"
    and "createCreateGameInstruction env rnd c args pid = Inr (ix, pda, pre)"
  shows "map pubkey (keys ix)
           = [c, pda, CreateGameArgs.devWallet args, TOKEN_PROGRAM_ID,
              SystemProgram_programId, SYSVAR_RENT_PUBKEY]"
  using assms
  by (auto simp: createCreateGameInstruction_def Let_def isNativeSOL_def meta_def
      dest!: deriveGamePDAs_native split: sum.splits if_splits)


lemma vault_address_native:
  assumes "isNativeSOL m"
  shows "vault_address env c n m pid = None"
proof (cases "deriveGamePDAs env c n m pid")
  case (Inl e)
  then show ?thesis by (simp add: vault_address_def)
next
  case (Inr pdas)
  with assms have "vaultPda pdas = None"
    using deriveGamePDAs_native [of env c n pid pdas] by (simp add: isNativeSOL_def)
  with Inr show ?thesis by (simp add: vault_address_def)
qed

lemma create_token_keys:
  assumes "\<not> isNativeSOL (CreateGameArgs.mint args)"
    and "createCreateGameInstruction env rnd c args pid = Inr (ix, pda, pre)"
  shows "\<exists>v. vault_address env c
                (case CreateGameArgs.nonce args of Some n \<Rightarrow> n | None \<Rightarrow> generateNonce rnd)
                (CreateGameArgs.mint args) pid = Some v
           \<and> map pubkey (keys ix)
               = [c, pda, v, CreateGameArgs.mint args, CreateGameArgs.devWallet args,
                  TOKEN_PROGRAM_ID, SystemProgram_programId, SYSVAR_RENT_PUBKEY]"
proof -
  define n where "n = (case CreateGameArgs.nonce args of
                          Some n \<Rightarrow> n | None \<Rightarrow> generateNonce rnd)"
  from assms(2) obtain pdas where
    pdas: "deriveGamePDAs env c n (CreateGameArgs.mint args) pid = Inr pdas"
    by (auto simp: createCreateGameInstruction_def Let_def n_def split: sum.splits)
  from assms(1) have "CreateGameArgs.mint args \<noteq> PublicKey_default"
    by (simp add: isNativeSOL_def)
  from deriveGamePDAs_token [OF this pdas] obtain v where v: "vaultPda pdas = Some v"
    by blast
  have "map pubkey (keys ix)
         = [c, pda, v, CreateGameArgs.mint args, CreateGameArgs.devWallet args,
            TOKEN_PROGRAM_ID, SystemProgram_programId, SYSVAR_RENT_PUBKEY]"
    using assms pdas v
    by (auto simp: createCreateGameInstruction_def Let_def n_def meta_def
        split: sum.splits if_splits)
  moreover have "vault_address env c n (CreateGameArgs.mint args) pid = Some v"
    using pdas v by (simp add: vault_address_def)
  ultimately show ?thesis
    unfolding n_def by auto
qed

lemma join_native_keys:
  assumes "isNativeSOL (mint g)"
    and "createJoinGameInstruction env w p2 pda g pid = Inr (ix, pre)"
  shows "map pubkey (keys ix)
           = [p2, pda, SystemProgram_programId, SystemProgram_programId,
              TOKEN_PROGRAM_ID, SystemProgram_programId]"
  using assms
  by (auto simp: createJoinGameInstruction_def Let_def meta_def)

lemma join_token_keys:
  assumes "\<not> isNativeSOL (mint g)"
    and "createJoinGameInstruction env w p2 pda g pid = Inr (ix, pre)"
  shows "\<exists>v ata. vault_address env (creator g) (nonce g) (mint g) pid = Some v
           \<and> map pubkey (keys ix)
               = [p2, pda, ata, v, TOKEN_PROGRAM_ID, SystemProgram_programId]"
proof -
  from assms obtain ata cix pdas where
    ata: "getOrCreateAssociatedTokenAccount env w p2 (mint g) p2 = Inr (ata, cix)"
    and pdas: "deriveGamePDAs env (creator g) (nonce g) (mint g) pid = Inr pdas"
    by (auto simp: createJoinGameInstruction_def Let_def split: sum.splits)
  from assms(1) have "mint g \<noteq> PublicKey_default"
    by (simp add: isNativeSOL_def)
  from deriveGamePDAs_token [OF this pdas] obtain v where v: "vaultPda pdas = Some v"
    by blast
  have "map pubkey (keys ix)
          = [p2, pda, ata, v, TOKEN_PROGRAM_ID, SystemProgram_programId]"
    using assms ata pdas v
    by (auto simp: createJoinGameInstruction_def Let_def meta_def)
  moreover have "vault_address env (creator g) (nonce g) (mint g) pid = Some v"
    using pdas v by (simp add: vault_address_def)
  ultimately show ?thesis by auto
qed

lemma resolve_native_keys:
  assumes "isNativeSOL (mint g)"
    and "createResolveGameInstruction env w r pda winner g pid = Inr (ix, pre)"
  shows "map pubkey (keys ix)
           = [r, pda, SystemProgram_programId, SystemProgram_programId,
              SystemProgram_programId, winner, devWallet g,
              TOKEN_PROGRAM_ID, SystemProgram_programId]"
  using assms
  by (auto simp: createResolveGameInstruction_def Let_def meta_def)

lemma resolve_token_keys:
  assumes "\<not> isNativeSOL (mint g)"
    and "createResolveGameInstruction env w r pda winner g pid = Inr (ix, pre)"
  shows "\<exists>v wta dta. vault_address env (creator g) (nonce g) (mint g) pid = Some v
           \<and> map pubkey (keys ix)
               = [r, pda, wta, dta, v, winner, devWallet g,
                  TOKEN_PROGRAM_ID, SystemProgram_programId]"
proof -
  from assms obtain wta wix dta dix pdas where
    wta: "getOrCreateAssociatedTokenAccount env w r (mint g) winner = Inr (wta, wix)"
    and dta: "getOrCreateAssociatedTokenAccount env w r (mint g) (devWallet g) = Inr (dta, dix)"
    and pdas: "deriveGamePDAs env (creator g) (nonce g) (mint g) pid = Inr pdas"
    by (auto simp: createResolveGameInstruction_def Let_def split: sum.splits)
  from assms(1) have "mint g \<noteq> PublicKey_default"
    by (simp add: isNativeSOL_def)
  from deriveGamePDAs_token [OF this pdas] obtain v where v: "vaultPda pdas = Some v"
    by blast
  have "map pubkey (keys ix)
          = [r, pda, wta, dta, v, winner, devWallet g,
             TOKEN_PROGRAM_ID, SystemProgram_programId]"
    using assms wta dta pdas v
    by (auto simp: createResolveGameInstruction_def Let_def meta_def)
  moreover have "vault_address env (creator g) (nonce g) (mint g) pid = Some v"
    using pdas v by (simp add: vault_address_def)
  ultimately show ?thesis by auto
qed

lemma cancel_native_keys:
  assumes "isNativeSOL (mint g)"
    and "createCancelGameInstruction env w a pda g pid = Inr (ix, pre)"
  shows "map pubkey (keys ix)
           = [a, pda, SystemProgram_programId, SystemProgram_programId,
              SystemProgram_programId, creator g,
              if player2 g \<noteq> PublicKey_default then player2 g
              else SystemProgram_programId,
              TOKEN_PROGRAM_ID, SystemProgram_programId]"
  using assms
  by (auto simp: createCancelGameInstruction_def Let_def meta_def)

lemma cancel_token_keys:
  assumes "\<not> isNativeSOL (mint g)"
    and "createCancelGameInstruction env w a pda g pid = Inr (ix, pre)"
  shows "\<exists>v cta pta. vault_address env (creator g) (nonce g) (mint g) pid = Some v
           \<and> map pubkey (keys ix)
               = [a, pda, cta, pta, v, creator g,
                  if player2 g \<noteq> PublicKey_default then player2 g
                  else SystemProgram_programId,
                  TOKEN_PROGRAM_ID, SystemProgram_programId]"
proof -
  from assms obtain cta cix pta pix pdas where
    cta: "getOrCreateAssociatedTokenAccount env w a (mint g) (creator g) = Inr (cta, cix)"
    and pta: "(if player2 g \<noteq> PublicKey_default
               then getOrCreateAssociatedTokenAccount env w a (mint g) (player2 g)
               else Inr (SystemProgram_programId, None)) = Inr (pta, pix)"
    and pdas: "deriveGamePDAs env (creator g) (nonce g) (mint g) pid = Inr pdas"
    by (auto simp: createCancelGameInstruction_def Let_def split: sum.splits)
  from assms(1) have "mint g \<noteq> PublicKey_default"
    by (simp add: isNativeSOL_def)
  from deriveGamePDAs_token [OF this pdas] obtain v where v: "vaultPda pdas = Some v"
    by blast
  have "map pubkey (keys ix)
          = [a, pda, cta, pta, v, creator g,
             if player2 g \<noteq> PublicKey_default then player2 g
             else SystemProgram_programId,
             TOKEN_PROGRAM_ID, SystemProgram_programId]"
    using assms(2) cta pta pdas v assms(1)
    by (auto simp: createCancelGameInstruction_def Let_def meta_def)
  moreover have "vault_address env (creator g) (nonce g) (mint g) pid = Some v"
    using pdas v by (simp add: vault_address_def)
  ultimately show ?thesis by auto
qed

lemma update_resolver_keys:
  "map pubkey (keys (createUpdateResolverInstruction c pda newResolver g pid)) = [c, pda]"
  by (simp add: createUpdateResolverInstruction_def meta_def)

text \<open>
  C3 (as stated, refuted at a concrete input). The claim says that no operation built in
  native mode references a token-program account. The create, join and resolve
  instructions of the native-stake example game all carry the token program id in their
  account lists.
\<close>

theorem native_lists_token_program_counterexample:
  "isNativeSOL PublicKey_default
   \<and> map_sum id (\<lambda>(ix, pda, pre). TOKEN_PROGRAM_ID \<in> set (map pubkey (keys ix)))
        (example_create PublicKey_default) = Inr True
   \<and> map_sum id (\<lambda>(ix, pre). TOKEN_PROGRAM_ID \<in> set (map pubkey (keys ix)))
        (example_join PublicKey_default) = Inr True
   \<and> map_sum id (\<lambda>(ix, pre). TOKEN_PROGRAM_ID \<in> set (map pubkey (keys ix)))
        (example_resolve PublicKey_default) = Inr True"
  by code_simp

text \<open>
  C3 (amended). In native mode no vault address exists, and the account list of each of
  create, join, resolve and cancel is exactly the caller, the game address, the parties
  of the operation, the token program id and system-program placeholders (with the rent
  sysvar for create): it holds no vault address but always the token program id. In
  token mode each of these four lists holds both the game's vault address and the token
  program id. The resolver-update instruction lists only the caller and the game
  address, in either mode.
\<close>

theorem account_lists_by_stake_kind:
  "(isNativeSOL m_z \<longrightarrow> vault_address env c_z n_z m_z pid = None)
   \<and> (isNativeSOL (CreateGameArgs.mint a_a)
        \<and> createCreateGameInstruction env rnd c_a a_a pid = Inr (ix_a, pda_a, pre_a) \<longrightarrow>
        map pubkey (keys ix_a)
          = [c_a, pda_a, CreateGameArgs.devWallet a_a, TOKEN_PROGRAM_ID,
             SystemProgram_programId, SYSVAR_RENT_PUBKEY])
   \<and> (isNativeSOL (mint g_b)
        \<and> createJoinGameInstruction env w p_b pda_b g_b pid = Inr (ix_b, pre_b) \<longrightarrow>
        map pubkey (keys ix_b)
          = [p_b, pda_b, SystemProgram_programId, SystemProgram_programId,
             TOKEN_PROGRAM_ID, SystemProgram_programId])
   \<and> (isNativeSOL (mint g_c)
        \<and> createResolveGameInstruction env w r_c pda_c winner_c g_c pid = Inr (ix_c, pre_c) \<longrightarrow>
        map pubkey (keys ix_c)
          = [r_c, pda_c, SystemProgram_programId, SystemProgram_programId,
             SystemProgram_programId, winner_c, devWallet g_c,
             TOKEN_PROGRAM_ID, SystemProgram_programId])
   \<and> (isNativeSOL (mint g_d)
        \<and> createCancelGameInstruction env w a_d pda_d g_d pid = Inr (ix_d, pre_d) \<longrightarrow>
        map pubkey (keys ix_d)
          = [a_d, pda_d, SystemProgram_programId, SystemProgram_programId,
             SystemProgram_programId, creator g_d,
             if player2 g_d \<noteq> PublicKey_default then player2 g_d
             else SystemProgram_programId,
             TOKEN_PROGRAM_ID, SystemProgram_programId])
   \<and> (\<not> isNativeSOL (CreateGameArgs.mint a_e)
        \<and> createCreateGameInstruction env rnd c_e a_e pid = Inr (ix_e, pda_e, pre_e) \<longrightarrow>
        (\<exists>v. vault_address env c_e
                (case CreateGameArgs.nonce a_e of Some n \<Rightarrow> n | None \<Rightarrow> generateNonce rnd)
                (CreateGameArgs.mint a_e) pid = Some v
           \<and> map pubkey (keys ix_e)
               = [c_e, pda_e, v, CreateGameArgs.mint a_e, CreateGameArgs.devWallet a_e,
                  TOKEN_PROGRAM_ID, SystemProgram_programId, SYSVAR_RENT_PUBKEY]))
   \<and> (\<not> isNativeSOL (mint g_f)
        \<and> createJoinGameInstruction env w p_f pda_f g_f pid = Inr (ix_f, pre_f) \<longrightarrow>
        (\<exists>v ata. vault_address env (creator g_f) (nonce g_f) (mint g_f) pid = Some v
           \<and> map pubkey (keys ix_f)
               = [p_f, pda_f, ata, v, TOKEN_PROGRAM_ID, SystemProgram_programId]))
   \<and> (\<not> isNativeSOL (mint g_g)
        \<and> createResolveGameInstruction env w r_g pda_g winner_g g_g pid = Inr (ix_g, pre_g) \<longrightarrow>
        (\<exists>v wta dta. vault_address env (creator g_g) (nonce g_g) (mint g_g) pid = Some v
           \<and> map pubkey (keys ix_g)
               = [r_g, pda_g, wta, dta, v, winner_g, devWallet g_g,
                  TOKEN_PROGRAM_ID, SystemProgram_programId]))
   \<and> (\<not> isNativeSOL (mint g_h)
        \<and> createCancelGameInstruction env w a_h pda_h g_h pid = Inr (ix_h, pre_h) \<longrightarrow>
        (\<exists>v cta pta. vault_address env (creator g_h) (nonce g_h) (mint g_h) pid = Some v
           \<and> map pubkey (keys ix_h)
               = [a_h, pda_h, cta, pta, v, creator g_h,
                  if player2 g_h \<noteq> PublicKey_default then player2 g_h
                  else SystemProgram_programId,
                  TOKEN_PROGRAM_ID, SystemProgram_programId]))
   \<and> map pubkey (keys (createUpdateResolverInstruction c_i pda_i newResolver_i g_i pid))
       = [c_i, pda_i]"
proof (intro conjI)
  show "isNativeSOL m_z \<longrightarrow> vault_address env c_z n_z m_z pid = None"
    by (intro impI, rule vault_address_native)
  show "map pubkey (keys (createUpdateResolverInstruction c_i pda_i newResolver_i g_i pid))
          = [c_i, pda_i]"
    by (rule update_resolver_keys)
qed ((intro impI, elim conjE,
      (rule create_native_keys join_native_keys resolve_native_keys cancel_native_keys
         create_token_keys join_token_keys resolve_token_keys cancel_token_keys;
       assumption))+)

theorem account_lists_by_stake_kind_witness:
  "isNativeSOL PublicKey_default
   \<and> \<not> isNativeSOL example_token_mint
   \<and> vault_address example_env (key_of 1) 7 PublicKey_default WAGER_PROGRAM_ID = None
   \<and> example_create PublicKey_default = Inr (fst (projr (example_create
       PublicKey_default)), fst (snd (projr (example_create PublicKey_default))), snd (snd
       (projr (example_create PublicKey_default))))
   \<and> map pubkey (keys (fst (projr (example_create PublicKey_default)))) = [key_of 1, fst
       (snd (projr (example_create PublicKey_default))), key_of 4, TOKEN_PROGRAM_ID,
       SystemProgram_programId, SYSVAR_RENT_PUBKEY]
   \<and> example_join PublicKey_default = Inr (fst (projr (example_join PublicKey_default)),
       snd (projr (example_join PublicKey_default)))
   \<and> map pubkey (keys (fst (projr (example_join PublicKey_default)))) = [key_of 2,
       example_game_address, SystemProgram_programId, SystemProgram_programId,
       TOKEN_PROGRAM_ID, SystemProgram_programId]
   \<and> example_resolve PublicKey_default = Inr (fst (projr (example_resolve
       PublicKey_default)), snd (projr (example_resolve PublicKey_default)))
   \<and> map pubkey (keys (fst (projr (example_resolve PublicKey_default)))) = [key_of 3,
       example_game_address, SystemProgram_programId, SystemProgram_programId,
       SystemProgram_programId, key_of 2, key_of 4, TOKEN_PROGRAM_ID,
       SystemProgram_programId]
   \<and> example_cancel PublicKey_default = Inr (fst (projr (example_cancel
       PublicKey_default)), snd (projr (example_cancel PublicKey_default)))
   \<and> map pubkey (keys (fst (projr (example_cancel PublicKey_default)))) = [key_of 1,
       example_game_address, SystemProgram_programId, SystemProgram_programId,
       SystemProgram_programId, key_of 1, key_of 2, TOKEN_PROGRAM_ID,
       SystemProgram_programId]
   \<and> example_create example_token_mint = Inr (fst (projr (example_create
       example_token_mint)), fst (snd (projr (example_create example_token_mint))), snd (snd
       (projr (example_create example_token_mint))))
   \<and> (\<exists>v. vault_address example_env (key_of 1) 7 example_token_mint
       WAGER_PROGRAM_ID = Some v \<and> map pubkey (keys (fst (projr (example_create
       example_token_mint)))) = [key_of 1, fst (snd (projr (example_create
       example_token_mint))), v, example_token_mint, key_of 4, TOKEN_PROGRAM_ID,
       SystemProgram_programId, SYSVAR_RENT_PUBKEY])
   \<and> example_join example_token_mint = Inr (fst (projr (example_join example_token_mint)),
       snd (projr (example_join example_token_mint)))
   \<and> (\<exists>v ata. vault_address example_env (key_of 1) 7 example_token_mint
       WAGER_PROGRAM_ID = Some v \<and> map pubkey (keys (fst (projr (example_join
       example_token_mint)))) = [key_of 2, example_game_address, ata, v, TOKEN_PROGRAM_ID,
       SystemProgram_programId])
   \<and> example_resolve example_token_mint = Inr (fst (projr (example_resolve
       example_token_mint)), snd (projr (example_resolve example_token_mint)))
   \<and> (\<exists>v wta dta. vault_address example_env (key_of 1) 7 example_token_mint
       WAGER_PROGRAM_ID = Some v \<and> map pubkey (keys (fst (projr (example_resolve
       example_token_mint)))) = [key_of 3, example_game_address, wta, dta, v, key_of 2,
       key_of 4, TOKEN_PROGRAM_ID, SystemProgram_programId])
   \<and> example_cancel example_token_mint = Inr (fst (projr (example_cancel
       example_token_mint)), snd (projr (example_cancel example_token_mint)))
   \<and> (\<exists>v cta pta. vault_address example_env (key_of 1) 7 example_token_mint
       WAGER_PROGRAM_ID = Some v \<and> map pubkey (keys (fst (projr (example_cancel
       example_token_mint)))) = [key_of 1, example_game_address, cta, pta, v, key_of 1,
       key_of 2, TOKEN_PROGRAM_ID, SystemProgram_programId])
   \<and> map pubkey (keys (createUpdateResolverInstruction (key_of 1) example_game_address
       (key_of 5) (example_game PublicKey_default PublicKey_default 0) WAGER_PROGRAM_ID)) =
       [key_of 1, example_game_address]"
proof -
  have n: "isNativeSOL PublicKey_default"
    by (simp add: isNativeSOL_def)
  have t: "\<not> isNativeSOL example_token_mint"
    by code_simp
  have joined: "key_of 2 \<noteq> PublicKey_default"
    by code_simp
  have r1: "\<not> isl (example_create PublicKey_default)"
    by code_simp
  have h1: "createCreateGameInstruction example_env (1 / 2) (key_of 1) (example_args
            PublicKey_default 1000000000 8500 0) WAGER_PROGRAM_ID = Inr (fst (projr
            (createCreateGameInstruction example_env (1 / 2) (key_of 1) (example_args
            PublicKey_default 1000000000 8500 0) WAGER_PROGRAM_ID)), fst (snd (projr
            (createCreateGameInstruction example_env (1 / 2) (key_of 1) (example_args
            PublicKey_default 1000000000 8500 0) WAGER_PROGRAM_ID))), snd (snd (projr
            (createCreateGameInstruction example_env (1 / 2) (key_of 1) (example_args
            PublicKey_default 1000000000 8500 0) WAGER_PROGRAM_ID))))"
    using r1 by (simp add: example_create_def example_join_def example_resolve_def example_cancel_def)
  have r2: "\<not> isl (example_join PublicKey_default)"
    by code_simp
  have h2: "createJoinGameInstruction example_env (example_ledger []) (key_of 2)
            example_game_address (example_game PublicKey_default PublicKey_default 0)
            WAGER_PROGRAM_ID = Inr (fst (projr (createJoinGameInstruction example_env
            (example_ledger []) (key_of 2) example_game_address (example_game
            PublicKey_default PublicKey_default 0) WAGER_PROGRAM_ID)), snd (projr
            (createJoinGameInstruction example_env (example_ledger []) (key_of 2)
            example_game_address (example_game PublicKey_default PublicKey_default 0)
            WAGER_PROGRAM_ID)))"
    using r2 by (simp add: example_create_def example_join_def example_resolve_def example_cancel_def)
  have r3: "\<not> isl (example_resolve PublicKey_default)"
    by code_simp
  have h3: "createResolveGameInstruction example_env (example_ledger []) (key_of 3)
            example_game_address (key_of 2) (example_game (key_of 2) PublicKey_default 1)
            WAGER_PROGRAM_ID = Inr (fst (projr (createResolveGameInstruction example_env
            (example_ledger []) (key_of 3) example_game_address (key_of 2) (example_game
            (key_of 2) PublicKey_default 1) WAGER_PROGRAM_ID)), snd (projr
            (createResolveGameInstruction example_env (example_ledger []) (key_of 3)
            example_game_address (key_of 2) (example_game (key_of 2) PublicKey_default 1)
            WAGER_PROGRAM_ID)))"
    using r3 by (simp add: example_create_def example_join_def example_resolve_def example_cancel_def)
  have r4: "\<not> isl (example_cancel PublicKey_default)"
    by code_simp
  have h4: "createCancelGameInstruction example_env (example_ledger []) (key_of 1)
            example_game_address (example_game (key_of 2) PublicKey_default 1)
            WAGER_PROGRAM_ID = Inr (fst (projr (createCancelGameInstruction example_env
            (example_ledger []) (key_of 1) example_game_address (example_game (key_of 2)
            PublicKey_default 1) WAGER_PROGRAM_ID)), snd (projr (createCancelGameInstruction
            example_env (example_ledger []) (key_of 1) example_game_address (example_game
            (key_of 2) PublicKey_default 1) WAGER_PROGRAM_ID)))"
    using r4 by (simp add: example_create_def example_join_def example_resolve_def example_cancel_def)
  have r5: "\<not> isl (example_create example_token_mint)"
    by code_simp
  have h5: "createCreateGameInstruction example_env (1 / 2) (key_of 1) (example_args
            example_token_mint 1000000000 8500 0) WAGER_PROGRAM_ID = Inr (fst (projr
            (createCreateGameInstruction example_env (1 / 2) (key_of 1) (example_args
            example_token_mint 1000000000 8500 0) WAGER_PROGRAM_ID)), fst (snd (projr
            (createCreateGameInstruction example_env (1 / 2) (key_of 1) (example_args
            example_token_mint 1000000000 8500 0) WAGER_PROGRAM_ID))), snd (snd (projr
            (createCreateGameInstruction example_env (1 / 2) (key_of 1) (example_args
            example_token_mint 1000000000 8500 0) WAGER_PROGRAM_ID))))"
    using r5 by (simp add: example_create_def example_join_def example_resolve_def example_cancel_def)
  have r6: "\<not> isl (example_join example_token_mint)"
    by code_simp
  have h6: "createJoinGameInstruction example_env (example_ledger []) (key_of 2)
            example_game_address (example_game PublicKey_default example_token_mint 0)
            WAGER_PROGRAM_ID = Inr (fst (projr (createJoinGameInstruction example_env
            (example_ledger []) (key_of 2) example_game_address (example_game
            PublicKey_default example_token_mint 0) WAGER_PROGRAM_ID)), snd (projr
            (createJoinGameInstruction example_env (example_ledger []) (key_of 2)
            example_game_address (example_game PublicKey_default example_token_mint 0)
            WAGER_PROGRAM_ID)))"
    using r6 by (simp add: example_create_def example_join_def example_resolve_def example_cancel_def)
  have r7: "\<not> isl (example_resolve example_token_mint)"
    by code_simp
  have h7: "createResolveGameInstruction example_env (example_ledger []) (key_of 3)
            example_game_address (key_of 2) (example_game (key_of 2) example_token_mint 1)
            WAGER_PROGRAM_ID = Inr (fst (projr (createResolveGameInstruction example_env
            (example_ledger []) (key_of 3) example_game_address (key_of 2) (example_game
            (key_of 2) example_token_mint 1) WAGER_PROGRAM_ID)), snd (projr
            (createResolveGameInstruction example_env (example_ledger []) (key_of 3)
            example_game_address (key_of 2) (example_game (key_of 2) example_token_mint 1)
            WAGER_PROGRAM_ID)))"
    using r7 by (simp add: example_create_def example_join_def example_resolve_def example_cancel_def)
  have r8: "\<not> isl (example_cancel example_token_mint)"
    by code_simp
  have h8: "createCancelGameInstruction example_env (example_ledger []) (key_of 1)
            example_game_address (example_game (key_of 2) example_token_mint 1)
            WAGER_PROGRAM_ID = Inr (fst (projr (createCancelGameInstruction example_env
            (example_ledger []) (key_of 1) example_game_address (example_game (key_of 2)
            example_token_mint 1) WAGER_PROGRAM_ID)), snd (projr
            (createCancelGameInstruction example_env (example_ledger []) (key_of 1)
            example_game_address (example_game (key_of 2) example_token_mint 1)
            WAGER_PROGRAM_ID)))"
    using r8 by (simp add: example_create_def example_join_def example_resolve_def example_cancel_def)
  have m1: "isNativeSOL (CreateGameArgs.mint (example_args PublicKey_default 1000000000 8500 0))"
    using n t by (simp add: example_args_def example_game_def)
  have m2: "isNativeSOL (mint (example_game PublicKey_default PublicKey_default 0))"
    using n t by (simp add: example_args_def example_game_def)
  have m3: "isNativeSOL (mint (example_game (key_of 2) PublicKey_default 1))"
    using n t by (simp add: example_args_def example_game_def)
  have m4: "isNativeSOL (mint (example_game (key_of 2) PublicKey_default 1))"
    using n t by (simp add: example_args_def example_game_def)
  have m5: "\<not> isNativeSOL (CreateGameArgs.mint (example_args example_token_mint 1000000000 8500 0))"
    using n t by (simp add: example_args_def example_game_def)
  have m6: "\<not> isNativeSOL (mint (example_game PublicKey_default example_token_mint 0))"
    using n t by (simp add: example_args_def example_game_def)
  have m7: "\<not> isNativeSOL (mint (example_game (key_of 2) example_token_mint 1))"
    using n t by (simp add: example_args_def example_game_def)
  have m8: "\<not> isNativeSOL (mint (example_game (key_of 2) example_token_mint 1))"
    using n t by (simp add: example_args_def example_game_def)
  note T = account_lists_by_stake_kind
    [where env = "example_env"
       and w = "example_ledger []"
       and pid = "WAGER_PROGRAM_ID"
       and rnd = "1 / 2"
       and m_z = "PublicKey_default"
       and c_z = "key_of 1"
       and n_z = "7"
       and a_a = "example_args PublicKey_default 1000000000 8500 0"
       and c_a = "key_of 1"
       and g_b = "example_game PublicKey_default PublicKey_default 0"
       and p_b = "key_of 2"
       and pda_b = "example_game_address"
       and g_c = "example_game (key_of 2) PublicKey_default 1"
       and r_c = "key_of 3"
       and pda_c = "example_game_address"
       and winner_c = "key_of 2"
       and g_d = "example_game (key_of 2) PublicKey_default 1"
       and a_d = "key_of 1"
       and pda_d = "example_game_address"
       and a_e = "example_args example_token_mint 1000000000 8500 0"
       and c_e = "key_of 1"
       and g_f = "example_game PublicKey_default example_token_mint 0"
       and p_f = "key_of 2"
       and pda_f = "example_game_address"
       and g_g = "example_game (key_of 2) example_token_mint 1"
       and r_g = "key_of 3"
       and pda_g = "example_game_address"
       and winner_g = "key_of 2"
       and g_h = "example_game (key_of 2) example_token_mint 1"
       and a_h = "key_of 1"
       and pda_h = "example_game_address"
       and c_i = "key_of 1"
       and pda_i = "example_game_address"
       and newResolver_i = "key_of 5"
       and g_i = "example_game PublicKey_default PublicKey_default 0"
       and ix_a = "fst (projr (createCreateGameInstruction example_env (1 / 2) (key_of 1)
            (example_args PublicKey_default 1000000000 8500 0) WAGER_PROGRAM_ID))"
       and pda_a = "fst (snd (projr (createCreateGameInstruction example_env (1 / 2) (key_of 1)
            (example_args PublicKey_default 1000000000 8500 0) WAGER_PROGRAM_ID)))"
       and pre_a = "snd (snd (projr (createCreateGameInstruction example_env (1 / 2) (key_of 1)
            (example_args PublicKey_default 1000000000 8500 0) WAGER_PROGRAM_ID)))"
       and ix_b = "fst (projr (createJoinGameInstruction example_env (example_ledger []) (key_of 2)
            example_game_address (example_game PublicKey_default PublicKey_default 0)
            WAGER_PROGRAM_ID))"
       and pre_b = "snd (projr (createJoinGameInstruction example_env (example_ledger []) (key_of 2)
            example_game_address (example_game PublicKey_default PublicKey_default 0)
            WAGER_PROGRAM_ID))"
       and ix_c = "fst (projr (createResolveGameInstruction example_env (example_ledger []) (key_of
            3) example_game_address (key_of 2) (example_game (key_of 2) PublicKey_default 1)
            WAGER_PROGRAM_ID))"
       and pre_c = "snd (projr (createResolveGameInstruction example_env (example_ledger []) (key_of
            3) example_game_address (key_of 2) (example_game (key_of 2) PublicKey_default 1)
            WAGER_PROGRAM_ID))"
       and ix_d = "fst (projr (createCancelGameInstruction example_env (example_ledger []) (key_of
            1) example_game_address (example_game (key_of 2) PublicKey_default 1)
            WAGER_PROGRAM_ID))"
       and pre_d = "snd (projr (createCancelGameInstruction example_env (example_ledger []) (key_of
            1) example_game_address (example_game (key_of 2) PublicKey_default 1)
            WAGER_PROGRAM_ID))"
       and ix_e = "fst (projr (createCreateGameInstruction example_env (1 / 2) (key_of 1)
            (example_args example_token_mint 1000000000 8500 0) WAGER_PROGRAM_ID))"
       and pda_e = "fst (snd (projr (createCreateGameInstruction example_env (1 / 2) (key_of 1)
            (example_args example_token_mint 1000000000 8500 0) WAGER_PROGRAM_ID)))"
       and pre_e = "snd (snd (projr (createCreateGameInstruction example_env (1 / 2) (key_of 1)
            (example_args example_token_mint 1000000000 8500 0) WAGER_PROGRAM_ID)))"
       and ix_f = "fst (projr (createJoinGameInstruction example_env (example_ledger []) (key_of 2)
            example_game_address (example_game PublicKey_default example_token_mint 0)
            WAGER_PROGRAM_ID))"
       and pre_f = "snd (projr (createJoinGameInstruction example_env (example_ledger []) (key_of 2)
            example_game_address (example_game PublicKey_default example_token_mint 0)
            WAGER_PROGRAM_ID))"
       and ix_g = "fst (projr (createResolveGameInstruction example_env (example_ledger []) (key_of
            3) example_game_address (key_of 2) (example_game (key_of 2) example_token_mint
            1) WAGER_PROGRAM_ID))"
       and pre_g = "snd (projr (createResolveGameInstruction example_env (example_ledger []) (key_of
            3) example_game_address (key_of 2) (example_game (key_of 2) example_token_mint
            1) WAGER_PROGRAM_ID))"
       and ix_h = "fst (projr (createCancelGameInstruction example_env (example_ledger []) (key_of
            1) example_game_address (example_game (key_of 2) example_token_mint 1)
            WAGER_PROGRAM_ID))"
       and pre_h = "snd (projr (createCancelGameInstruction example_env (example_ledger []) (key_of
            1) example_game_address (example_game (key_of 2) example_token_mint 1)
            WAGER_PROGRAM_ID))"]
  have k0: "vault_address example_env (key_of 1) 7 PublicKey_default WAGER_PROGRAM_ID = None"
    using T [THEN conjunct1] n by simp
  have k1: "map pubkey (keys (fst (projr (createCreateGameInstruction example_env (1 / 2)
            (key_of 1) (example_args PublicKey_default 1000000000 8500 0)
            WAGER_PROGRAM_ID)))) = [key_of 1, fst (snd (projr (createCreateGameInstruction
            example_env (1 / 2) (key_of 1) (example_args PublicKey_default 1000000000 8500
            0) WAGER_PROGRAM_ID))), key_of 4, TOKEN_PROGRAM_ID, SystemProgram_programId,
            SYSVAR_RENT_PUBKEY]"
    using T [THEN conjunct2, THEN conjunct1] m1 h1 joined
    by (simp add: example_args_def example_game_def)
  have k2: "map pubkey (keys (fst (projr (createJoinGameInstruction example_env
            (example_ledger []) (key_of 2) example_game_address (example_game
            PublicKey_default PublicKey_default 0) WAGER_PROGRAM_ID)))) = [key_of 2,
            example_game_address, SystemProgram_programId, SystemProgram_programId,
            TOKEN_PROGRAM_ID, SystemProgram_programId]"
    using T [THEN conjunct2, THEN conjunct2, THEN conjunct1] m2 h2 joined
    by (simp add: example_args_def example_game_def)
  have k3: "map pubkey (keys (fst (projr (createResolveGameInstruction example_env
            (example_ledger []) (key_of 3) example_game_address (key_of 2) (example_game
            (key_of 2) PublicKey_default 1) WAGER_PROGRAM_ID)))) = [key_of 3,
            example_game_address, SystemProgram_programId, SystemProgram_programId,
            SystemProgram_programId, key_of 2, key_of 4, TOKEN_PROGRAM_ID,
            SystemProgram_programId]"
    using T [THEN conjunct2, THEN conjunct2, THEN conjunct2, THEN conjunct1] m3 h3 joined
    by (simp add: example_args_def example_game_def)
  have k4: "map pubkey (keys (fst (projr (createCancelGameInstruction example_env
            (example_ledger []) (key_of 1) example_game_address (example_game (key_of 2)
            PublicKey_default 1) WAGER_PROGRAM_ID)))) = [key_of 1, example_game_address,
            SystemProgram_programId, SystemProgram_programId, SystemProgram_programId,
            key_of 1, key_of 2, TOKEN_PROGRAM_ID, SystemProgram_programId]"
    using T [THEN conjunct2, THEN conjunct2, THEN conjunct2, THEN conjunct2, THEN conjunct1] m4 h4 joined
    by (simp add: example_args_def example_game_def)
  have k5: "(\<exists>v. vault_address example_env (key_of 1) 7 example_token_mint
            WAGER_PROGRAM_ID = Some v \<and> map pubkey (keys (fst (projr
            (createCreateGameInstruction example_env (1 / 2) (key_of 1) (example_args
            example_token_mint 1000000000 8500 0) WAGER_PROGRAM_ID)))) = [key_of 1, fst (snd
            (projr (createCreateGameInstruction example_env (1 / 2) (key_of 1) (example_args
            example_token_mint 1000000000 8500 0) WAGER_PROGRAM_ID))), v,
            example_token_mint, key_of 4, TOKEN_PROGRAM_ID, SystemProgram_programId,
            SYSVAR_RENT_PUBKEY])"
    using T [THEN conjunct2, THEN conjunct2, THEN conjunct2, THEN conjunct2, THEN conjunct2, THEN conjunct1] m5 h5 joined
    by (simp add: example_args_def example_game_def)
  have k6: "(\<exists>v ata. vault_address example_env (key_of 1) 7 example_token_mint
            WAGER_PROGRAM_ID = Some v \<and> map pubkey (keys (fst (projr
            (createJoinGameInstruction example_env (example_ledger []) (key_of 2)
            example_game_address (example_game PublicKey_default example_token_mint 0)
            WAGER_PROGRAM_ID)))) = [key_of 2, example_game_address, ata, v,
            TOKEN_PROGRAM_ID, SystemProgram_programId])"
    using T [THEN conjunct2, THEN conjunct2, THEN conjunct2, THEN conjunct2, THEN conjunct2, THEN conjunct2, THEN conjunct1] m6 h6 joined
    by (simp add: example_args_def example_game_def)
  have k7: "(\<exists>v wta dta. vault_address example_env (key_of 1) 7 example_token_mint
            WAGER_PROGRAM_ID = Some v \<and> map pubkey (keys (fst (projr
            (createResolveGameInstruction example_env (example_ledger []) (key_of 3)
            example_game_address (key_of 2) (example_game (key_of 2) example_token_mint 1)
            WAGER_PROGRAM_ID)))) = [key_of 3, example_game_address, wta, dta, v, key_of 2,
            key_of 4, TOKEN_PROGRAM_ID, SystemProgram_programId])"
    using T [THEN conjunct2, THEN conjunct2, THEN conjunct2, THEN conjunct2, THEN conjunct2, THEN conjunct2, THEN conjunct2, THEN conjunct1] m7 h7 joined
    by (simp add: example_args_def example_game_def)
  have k8: "(\<exists>v cta pta. vault_address example_env (key_of 1) 7 example_token_mint
            WAGER_PROGRAM_ID = Some v \<and> map pubkey (keys (fst (projr
            (createCancelGameInstruction example_env (example_ledger []) (key_of 1)
            example_game_address (example_game (key_of 2) example_token_mint 1)
            WAGER_PROGRAM_ID)))) = [key_of 1, example_game_address, cta, pta, v, key_of 1,
            key_of 2, TOKEN_PROGRAM_ID, SystemProgram_programId])"
    using T [THEN conjunct2, THEN conjunct2, THEN conjunct2, THEN conjunct2, THEN conjunct2, THEN conjunct2, THEN conjunct2, THEN conjunct2, THEN conjunct1] m8 h8 joined
    by (simp add: example_args_def example_game_def)
  have k9: "map pubkey (keys (createUpdateResolverInstruction (key_of 1)
            example_game_address (key_of 5) (example_game PublicKey_default
            PublicKey_default 0) WAGER_PROGRAM_ID)) = [key_of 1, example_game_address]"
    by (rule T [THEN conjunct2, THEN conjunct2, THEN conjunct2, THEN conjunct2, THEN conjunct2, THEN conjunct2, THEN conjunct2, THEN conjunct2, THEN conjunct2])
  show ?thesis
    unfolding example_create_def example_join_def example_resolve_def example_cancel_def
    by (intro conjI n t k0 h1 k1 h2 k2 h3 k3 h4 k4 h5 k5 h6 k6 h7 k7 h8 k8 k9)
qed

section \<open>Guards of the client operations\<close>

lemma resolveGame_invalid_winner:
  assumes "getGame env w pda = Inr g" and "state g = GameState_value Ready"
    and "winner \<noteq> player1 g" and "winner \<noteq> player2 g"
  shows "resolveGame env w r pda winner pid
           = (Inl (WagerError ''Winner must be one of the two players''), w)"
  using assms by (simp add: resolveGame_def canResolve_def)

lemma resolveGame_wrong_state:
  assumes "getGame env w pda = Inr g" and "state g \<noteq> GameState_value Ready"
  shows "resolveGame env w r pda winner pid
           = (Inl (InvalidGameStateError (GameState_value Ready) (state g)), w)"
  using assms by (simp add: resolveGame_def canResolve_def)

lemma updateResolver_wrong_state:
  assumes "getGame env w pda = Inr g" and "state g \<noteq> GameState_value Open"
  shows "updateResolver env w caller pda newResolver pid
           = (Inl (WagerError ''Cannot update resolver after deposits have been made''), w)"
  using assms by (simp add: updateResolver_def)

lemma updateResolver_open:
  assumes "getGame env w pda = Inr g" and "state g = GameState_value Open"
  shows "updateResolver env w caller pda newResolver pid
           = sendAndConfirmTransaction env
               [createUpdateResolverInstruction caller pda newResolver g pid] [caller] w"
  using assms by (simp add: updateResolver_def)

lemma joinGame_wrong_state:
  assumes "getGame env w pda = Inr g" and "state g \<noteq> GameState_value Open"
  shows "joinGame env w caller pda pid
           = (Inl (InvalidGameStateError (GameState_value Open) (state g)), w)"
  using assms by (simp add: joinGame_def canJoin_def)








lemma joinGame_joinable:
  assumes "getGame env w pda = Inr g" and "canJoin g"
    and "createJoinGameInstruction env w caller pda g pid = Inr (ix, pre)"
  shows "joinGame env w caller pda pid
           = sendAndConfirmTransaction env (pre @ [ix]) [caller] w"
  using assms by (simp add: joinGame_def)




text \<open>
  C6. For every record, a join attempt fails with \<open>WrongState\<close> if the record's state
  is not Open, and on an Open record it fails with \<open>SelfJoinForbidden\<close> if the joining
  caller equals the record's creator (the state guard comes first, so a join by the
  creator fails with one of the two on every record); each failure leaves the record as
  it was. A join that succeeds was made by a caller other than the creator on an Open
  record, and every such caller depositing the record's stake kind does join. The
  guards are those of the authority; the client adds the state guard of its own before
  it submits anything (a record that is not Open gives its wrong-state error and the
  ledger as it was), and for a record it may join it returns what the submission of the
  join instruction returns.
\<close>

theorem join_guards:
  "(state (account e) \<noteq> GameState_value Open \<longrightarrow>
      authority_join e joiner kind = (Inl WrongState, e))
   \<and> (state (account e) = GameState_value Open \<and> joiner = creator (account e) \<longrightarrow>
      authority_join e joiner kind = (Inl SelfJoinForbidden, e))
   \<and> (joiner = creator (account e) \<longrightarrow>
      authority_join e joiner kind = (Inl WrongState, e)
      \<or> authority_join e joiner kind = (Inl SelfJoinForbidden, e))
   \<and> (fst (authority_join e joiner kind) = Inr () \<longrightarrow>
      joiner \<noteq> creator (account e) \<and> state (account e) = GameState_value Open)
   \<and> (state (account e) = GameState_value Open \<and> joiner \<noteq> creator (account e)
      \<and> kind = mint (account e) \<longrightarrow>
      authority_join e joiner kind
        = (Inr (),
           e\<lparr>account := (account e)\<lparr>player2 := joiner, state := GameState_value Ready\<rparr>,
             escrowed := escrowed e + wager (account e)\<rparr>))
   \<and> (getGame env w pda = Inr g \<and> state g \<noteq> GameState_value Open \<longrightarrow>
      joinGame env w caller pda pid
        = (Inl (InvalidGameStateError (GameState_value Open) (state g)), w))
   \<and> (getGame env w pda = Inr g \<and> canJoin g
      \<and> createJoinGameInstruction env w caller pda g pid = Inr (ix, pre) \<longrightarrow>
      joinGame env w caller pda pid
        = sendAndConfirmTransaction env (pre @ [ix]) [caller] w)"
proof (intro conjI impI)
  assume "getGame env w pda = Inr g \<and> state g \<noteq> GameState_value Open"
  then show "joinGame env w caller pda pid
        = (Inl (InvalidGameStateError (GameState_value Open) (state g)), w)"
    by (elim conjE) (rule joinGame_wrong_state)
next
  assume "getGame env w pda = Inr g \<and> canJoin g
      \<and> createJoinGameInstruction env w caller pda g pid = Inr (ix, pre)"
  then show "joinGame env w caller pda pid
        = sendAndConfirmTransaction env (pre @ [ix]) [caller] w"
    by (elim conjE) (rule joinGame_joinable)
qed (auto simp: authority_join_def split: if_splits)

theorem join_guards_witness:
  "state (account (example_escrow (example_game (key_of 2) PublicKey_default 1)))
     \<noteq> GameState_value Open
   \<and> authority_join (example_escrow (example_game (key_of 2) PublicKey_default 1))
        (key_of 9) PublicKey_default
       = (Inl WrongState, example_escrow (example_game (key_of 2) PublicKey_default 1))
   \<and> state (account (example_escrow (example_game PublicKey_default PublicKey_default 0)))
       = GameState_value Open
   \<and> key_of 1
       = creator (account (example_escrow (example_game PublicKey_default PublicKey_default 0)))
   \<and> authority_join (example_escrow (example_game PublicKey_default PublicKey_default 0))
        (key_of 1) PublicKey_default
       = (Inl SelfJoinForbidden,
          example_escrow (example_game PublicKey_default PublicKey_default 0))
   \<and> key_of 2
       \<noteq> creator (account (example_escrow (example_game PublicKey_default PublicKey_default 0)))
   \<and> PublicKey_default
       = mint (account (example_escrow (example_game PublicKey_default PublicKey_default 0)))
   \<and> fst (authority_join (example_escrow (example_game PublicKey_default PublicKey_default 0))
             (key_of 2) PublicKey_default) = Inr ()
   \<and> snd (authority_join (example_escrow (example_game PublicKey_default PublicKey_default 0))
             (key_of 2) PublicKey_default)
       = \<lparr>account = example_game (key_of 2) PublicKey_default 1, escrowed = 2000000000\<rparr>
   \<and> getGame example_env (example_ledger example_ready_account) example_game_address
       = Inr (example_game (key_of 2) PublicKey_default 1)
   \<and> joinGame example_env (example_ledger example_ready_account) (key_of 9)
        example_game_address WAGER_PROGRAM_ID
       = (Inl (InvalidGameStateError (GameState_value Open) (GameState_value Ready)),
          example_ledger example_ready_account)
   \<and> getGame example_env (example_ledger example_open_account) example_game_address
       = Inr (example_game PublicKey_default PublicKey_default 0)
   \<and> canJoin (example_game PublicKey_default PublicKey_default 0)
   \<and> \<not> isl (createJoinGameInstruction example_env (example_ledger example_open_account)
              (key_of 2) example_game_address
              (example_game PublicKey_default PublicKey_default 0) WAGER_PROGRAM_ID)
   \<and> joinGame example_env (example_ledger example_open_account) (key_of 2)
        example_game_address WAGER_PROGRAM_ID
       = sendAndConfirmTransaction example_env
           (snd (projr (createJoinGameInstruction example_env
                          (example_ledger example_open_account) (key_of 2)
                          example_game_address
                          (example_game PublicKey_default PublicKey_default 0)
                          WAGER_PROGRAM_ID))
            @ [fst (projr (createJoinGameInstruction example_env
                             (example_ledger example_open_account) (key_of 2)
                             example_game_address
                             (example_game PublicKey_default PublicKey_default 0)
                             WAGER_PROGRAM_ID))])
           [key_of 2] (example_ledger example_open_account)"
proof -
  let ?ready = "example_game (key_of 2) PublicKey_default 1"
  let ?opened = "example_game PublicKey_default PublicKey_default 0"
  let ?ix = "createJoinGameInstruction example_env (example_ledger example_open_account)
               (key_of 2) example_game_address ?opened WAGER_PROGRAM_ID"
  have ready: "getGame example_env (example_ledger example_ready_account)
                 example_game_address = Inr ?ready"
    by code_simp
  have opened: "getGame example_env (example_ledger example_open_account)
                  example_game_address = Inr ?opened"
    by code_simp
  have joinable: "canJoin ?opened"
    by code_simp
  have built: "\<not> isl ?ix"
    by code_simp
  then have ix: "?ix = Inr (fst (projr ?ix), snd (projr ?ix))"
    by simp
  have others: "key_of 2 \<noteq> key_of 1" "key_of 9 \<noteq> key_of 1"
    by (simp_all add: key_of_def)
  note T = join_guards [where env = example_env and pid = WAGER_PROGRAM_ID
      and pda = example_game_address and kind = PublicKey_default]
  have wrong: "authority_join (example_escrow ?ready) (key_of 9) PublicKey_default
                 = (Inl WrongState, example_escrow ?ready)"
    using T [where e = "example_escrow ?ready" and joiner = "key_of 9", THEN conjunct1]
    by (simp add: example_escrow_def example_game_def)
  have self: "authority_join (example_escrow ?opened) (key_of 1) PublicKey_default
                = (Inl SelfJoinForbidden, example_escrow ?opened)"
    using T [where e = "example_escrow ?opened" and joiner = "key_of 1",
             THEN conjunct2, THEN conjunct1]
    by (simp add: example_escrow_def example_game_def)
  have joined: "authority_join (example_escrow ?opened) (key_of 2) PublicKey_default
                  = (Inr (), \<lparr>account = ?ready, escrowed = 2000000000\<rparr>)"
    using T [where e = "example_escrow ?opened" and joiner = "key_of 2",
             THEN conjunct2, THEN conjunct2, THEN conjunct2, THEN conjunct2, THEN conjunct1]
      others
    by (simp add: example_escrow_def example_game_def)
  have client: "joinGame example_env (example_ledger example_ready_account) (key_of 9)
        example_game_address WAGER_PROGRAM_ID
       = (Inl (InvalidGameStateError (GameState_value Open) (GameState_value Ready)),
          example_ledger example_ready_account)"
    using T [where w = "example_ledger example_ready_account" and g = ?ready
               and caller = "key_of 9",
             THEN conjunct2, THEN conjunct2, THEN conjunct2, THEN conjunct2, THEN conjunct2,
             THEN conjunct1]
      ready
    by (simp add: example_game_def)
  have deferred: "joinGame example_env (example_ledger example_open_account) (key_of 2)
        example_game_address WAGER_PROGRAM_ID
       = sendAndConfirmTransaction example_env (snd (projr ?ix) @ [fst (projr ?ix)])
           [key_of 2] (example_ledger example_open_account)"
    using T [where w = "example_ledger example_open_account" and g = ?opened
               and caller = "key_of 2" and ix = "fst (projr ?ix)"
               and pre = "snd (projr ?ix)",
             THEN conjunct2, THEN conjunct2, THEN conjunct2, THEN conjunct2, THEN conjunct2,
             THEN conjunct2]
      opened joinable ix
    by simp
  show ?thesis
    using wrong self joined client deferred ready opened joinable built others
    by (simp add: example_escrow_def example_game_def)
qed

text \<open>
  C7. For every record in state Ready, a resolve attempt that names a winner equal to
  neither \<open>player_one\<close> nor \<open>player_two\<close> fails with the invalid-winner error; nothing is
  submitted, the ledger is returned as it was, and the record read from it is still
  Ready. A resolve attempt on a record that is not in state Ready fails with the
  wrong-state error (expected Ready, found the record's state), again with the ledger
  as it was.
\<close>

theorem resolveGame_guards:
  "(getGame env w pda = Inr g \<and> state g = GameState_value Ready
      \<and> winner \<noteq> player1 g \<and> winner \<noteq> player2 g \<longrightarrow>
      resolveGame env w caller pda winner pid
        = (Inl (WagerError ''Winner must be one of the two players''), w)
      \<and> map_sum id state
           (getGame env (snd (resolveGame env w caller pda winner pid)) pda)
          = Inr (GameState_value Ready))
   \<and> (getGame env w' pda' = Inr g' \<and> state g' \<noteq> GameState_value Ready \<longrightarrow>
      resolveGame env w' caller' pda' winner' pid
        = (Inl (InvalidGameStateError (GameState_value Ready) (state g')), w'))"
proof (intro conjI impI)
  assume h: "getGame env w pda = Inr g \<and> state g = GameState_value Ready
      \<and> winner \<noteq> player1 g \<and> winner \<noteq> player2 g"
  then show r: "resolveGame env w caller pda winner pid
        = (Inl (WagerError ''Winner must be one of the two players''), w)"
    by (elim conjE) (rule resolveGame_invalid_winner)
  show "map_sum id state (getGame env (snd (resolveGame env w caller pda winner pid)) pda)
          = Inr (GameState_value Ready)"
    using h by (simp add: r)
next
  assume "getGame env w' pda' = Inr g' \<and> state g' \<noteq> GameState_value Ready"
  then show "resolveGame env w' caller' pda' winner' pid
        = (Inl (InvalidGameStateError (GameState_value Ready) (state g')), w')"
    by (elim conjE) (rule resolveGame_wrong_state)
qed

theorem resolveGame_guards_witness:
  "getGame example_env (example_ledger example_ready_account) example_game_address
     = Inr (example_game (key_of 2) PublicKey_default 1)
   \<and> state (example_game (key_of 2) PublicKey_default 1) = GameState_value Ready
   \<and> key_of 9 \<noteq> player1 (example_game (key_of 2) PublicKey_default 1)
   \<and> key_of 9 \<noteq> player2 (example_game (key_of 2) PublicKey_default 1)
   \<and> resolveGame example_env (example_ledger example_ready_account) (key_of 3)
        example_game_address (key_of 9) WAGER_PROGRAM_ID
       = (Inl (WagerError ''Winner must be one of the two players''),
          example_ledger example_ready_account)
   \<and> getGame example_env (example_ledger example_open_account) example_game_address
       = Inr (example_game PublicKey_default PublicKey_default 0)
   \<and> state (example_game PublicKey_default PublicKey_default 0) \<noteq> GameState_value Ready
   \<and> resolveGame example_env (example_ledger example_open_account) (key_of 3)
        example_game_address (key_of 1) WAGER_PROGRAM_ID
       = (Inl (InvalidGameStateError (GameState_value Ready) (GameState_value Open)),
          example_ledger example_open_account)"
proof -
  have ready: "getGame example_env (example_ledger example_ready_account)
                 example_game_address
               = Inr (example_game (key_of 2) PublicKey_default 1)"
    by code_simp
  have opened: "getGame example_env (example_ledger example_open_account)
                  example_game_address
                = Inr (example_game PublicKey_default PublicKey_default 0)"
    by code_simp
  have others: "key_of 9 \<noteq> key_of 1" "key_of 9 \<noteq> key_of 2"
    by (simp_all add: key_of_def)
  show ?thesis
    using resolveGame_guards
      [where env = example_env and w = "example_ledger example_ready_account"
         and pda = example_game_address
         and g = "example_game (key_of 2) PublicKey_default 1"
         and winner = "key_of 9" and caller = "key_of 3" and pid = WAGER_PROGRAM_ID
         and w' = "example_ledger example_open_account" and pda' = example_game_address
         and g' = "example_game PublicKey_default PublicKey_default 0"
         and caller' = "key_of 3" and winner' = "key_of 1"]
      ready opened others
    by (simp add: example_game_def)
qed

text \<open>
  C9. For every record, a resolver-update attempt succeeds only when the caller is the
  record's creator and the state is Open, and then sets the resolver; any attempt when
  the state is not Open, or by a caller other than the creator, fails with
  \<open>WrongState\<close> (the spec's \<open>DepositsAlreadyMade\<close>) and leaves the record, and with
  it the resolver field, unchanged. The guards are those of the authority; the client
  adds the state guard of its own before it submits anything (a record that is not Open
  gives its "deposits have been made" error and the ledger as it was), and for an Open
  record it returns what the submission of the update instruction returns.
\<close>

theorem update_resolver_guards:
  "(fst (authority_update_resolver e caller new_resolver) = Inr () \<longrightarrow>
      caller = creator (account e) \<and> state (account e) = GameState_value Open)
   \<and> (caller = creator (account e) \<and> state (account e) = GameState_value Open \<longrightarrow>
      authority_update_resolver e caller new_resolver
        = (Inr (), e\<lparr>account := (account e)\<lparr>resolver := new_resolver\<rparr>\<rparr>))
   \<and> (state (account e) \<noteq> GameState_value Open \<or> caller \<noteq> creator (account e) \<longrightarrow>
      authority_update_resolver e caller new_resolver = (Inl WrongState, e)
      \<and> resolver (account (snd (authority_update_resolver e caller new_resolver)))
          = resolver (account e))
   \<and> (getGame env w pda = Inr g \<and> state g \<noteq> GameState_value Open \<longrightarrow>
      updateResolver env w signer pda new_resolver pid
        = (Inl (WagerError ''Cannot update resolver after deposits have been made''), w)
      \<and> map_sum id resolver
           (getGame env (snd (updateResolver env w signer pda new_resolver pid)) pda)
          = Inr (resolver g))
   \<and> (getGame env w pda = Inr g \<and> state g = GameState_value Open \<longrightarrow>
      updateResolver env w signer pda new_resolver pid
        = sendAndConfirmTransaction env
            [createUpdateResolverInstruction signer pda new_resolver g pid] [signer] w)"
proof (intro conjI impI)
  assume h: "getGame env w pda = Inr g \<and> state g \<noteq> GameState_value Open"
  then show r: "updateResolver env w signer pda new_resolver pid
        = (Inl (WagerError ''Cannot update resolver after deposits have been made''), w)"
    by (elim conjE) (rule updateResolver_wrong_state)
  show "map_sum id resolver
           (getGame env (snd (updateResolver env w signer pda new_resolver pid)) pda)
          = Inr (resolver g)"
    using h by (simp add: r)
next
  assume "getGame env w pda = Inr g \<and> state g = GameState_value Open"
  then show "updateResolver env w signer pda new_resolver pid
        = sendAndConfirmTransaction env
            [createUpdateResolverInstruction signer pda new_resolver g pid] [signer] w"
    by (elim conjE) (rule updateResolver_open)
qed (auto simp: authority_update_resolver_def split: if_splits)

theorem update_resolver_guards_witness:
  "key_of 1
     = creator (account (example_escrow (example_game PublicKey_default PublicKey_default 0)))
   \<and> state (account (example_escrow (example_game PublicKey_default PublicKey_default 0)))
       = GameState_value Open
   \<and> fst (authority_update_resolver
             (example_escrow (example_game PublicKey_default PublicKey_default 0))
             (key_of 1) (key_of 5)) = Inr ()
   \<and> resolver (account (snd (authority_update_resolver
             (example_escrow (example_game PublicKey_default PublicKey_default 0))
             (key_of 1) (key_of 5)))) = key_of 5
   \<and> key_of 9
       \<noteq> creator (account (example_escrow (example_game PublicKey_default PublicKey_default 0)))
   \<and> authority_update_resolver
        (example_escrow (example_game PublicKey_default PublicKey_default 0))
        (key_of 9) (key_of 5)
       = (Inl WrongState, example_escrow (example_game PublicKey_default PublicKey_default 0))
   \<and> state (account (example_escrow (example_game (key_of 2) PublicKey_default 1)))
       \<noteq> GameState_value Open
   \<and> authority_update_resolver
        (example_escrow (example_game (key_of 2) PublicKey_default 1)) (key_of 1) (key_of 5)
       = (Inl WrongState, example_escrow (example_game (key_of 2) PublicKey_default 1))
   \<and> getGame example_env (example_ledger example_ready_account) example_game_address
       = Inr (example_game (key_of 2) PublicKey_default 1)
   \<and> updateResolver example_env (example_ledger example_ready_account) (key_of 1)
        example_game_address (key_of 5) WAGER_PROGRAM_ID
       = (Inl (WagerError ''Cannot update resolver after deposits have been made''),
          example_ledger example_ready_account)
   \<and> getGame example_env (example_ledger example_open_account) example_game_address
       = Inr (example_game PublicKey_default PublicKey_default 0)
   \<and> updateResolver example_env (example_ledger example_open_account) (key_of 1)
        example_game_address (key_of 5) WAGER_PROGRAM_ID
       = sendAndConfirmTransaction example_env
           [createUpdateResolverInstruction (key_of 1) example_game_address (key_of 5)
              (example_game PublicKey_default PublicKey_default 0) WAGER_PROGRAM_ID]
           [key_of 1] (example_ledger example_open_account)"
proof -
  let ?ready = "example_game (key_of 2) PublicKey_default 1"
  let ?opened = "example_game PublicKey_default PublicKey_default 0"
  have ready: "getGame example_env (example_ledger example_ready_account)
                 example_game_address = Inr ?ready"
    by code_simp
  have opened: "getGame example_env (example_ledger example_open_account)
                  example_game_address = Inr ?opened"
    by code_simp
  have other: "key_of 9 \<noteq> key_of 1"
    by (simp add: key_of_def)
  note T = update_resolver_guards [where env = example_env and pid = WAGER_PROGRAM_ID
      and pda = example_game_address and new_resolver = "key_of 5"]
  have updated: "authority_update_resolver (example_escrow ?opened) (key_of 1) (key_of 5)
                = (Inr (), (example_escrow ?opened)
                     \<lparr>account := (account (example_escrow ?opened))\<lparr>resolver := key_of 5\<rparr>\<rparr>)"
    using T [where e = "example_escrow ?opened" and caller = "key_of 1",
             THEN conjunct2, THEN conjunct1]
    by (simp add: example_escrow_def example_game_def)
  have stranger: "authority_update_resolver (example_escrow ?opened) (key_of 9) (key_of 5)
                    = (Inl WrongState, example_escrow ?opened)"
    using T [where e = "example_escrow ?opened" and caller = "key_of 9",
             THEN conjunct2, THEN conjunct2, THEN conjunct1] other
    by (simp add: example_escrow_def example_game_def)
  have late: "authority_update_resolver (example_escrow ?ready) (key_of 1) (key_of 5)
                = (Inl WrongState, example_escrow ?ready)"
    using T [where e = "example_escrow ?ready" and caller = "key_of 1",
             THEN conjunct2, THEN conjunct2, THEN conjunct1]
    by (simp add: example_escrow_def example_game_def)
  have client_late: "updateResolver example_env (example_ledger example_ready_account)
        (key_of 1) example_game_address (key_of 5) WAGER_PROGRAM_ID
       = (Inl (WagerError ''Cannot update resolver after deposits have been made''),
          example_ledger example_ready_account)"
    using T [where w = "example_ledger example_ready_account" and g = ?ready
               and signer = "key_of 1",
             THEN conjunct2, THEN conjunct2, THEN conjunct2, THEN conjunct1] ready
    by (simp add: example_game_def)
  have client_open: "updateResolver example_env (example_ledger example_open_account)
        (key_of 1) example_game_address (key_of 5) WAGER_PROGRAM_ID
       = sendAndConfirmTransaction example_env
           [createUpdateResolverInstruction (key_of 1) example_game_address (key_of 5)
              ?opened WAGER_PROGRAM_ID]
           [key_of 1] (example_ledger example_open_account)"
    using T [where w = "example_ledger example_open_account" and g = ?opened
               and signer = "key_of 1",
             THEN conjunct2, THEN conjunct2, THEN conjunct2, THEN conjunct2] opened
    by (simp add: example_game_def)
  show ?thesis
    using updated stranger late client_late client_open ready opened other
    by (simp add: example_escrow_def example_game_def)
qed

section \<open>The default nonce\<close>

lemma ulp_below_pos: "0 < u \<Longrightarrow> 0 < ulp_below n u x"
  by (induction n arbitrary: u) simp_all

lemma ulp_below_le: "0 < u \<Longrightarrow> ulp_below n u x \<le> u"
proof (induction n arbitrary: u)
  case 0
  then show ?case by simp
next
  case (Suc n)
  have "ulp_below n (u / 2) x \<le> u / 2"
    using Suc.prems by (intro Suc.IH) simp
  then show ?case using Suc.prems by simp
qed

lemma ulp_below_binade:
  "0 < u \<Longrightarrow> ulp_below n u x < u \<Longrightarrow> x < 2 ^ 52 * (2 * ulp_below n u x)"
proof (induction n arbitrary: u)
  case 0
  then show ?case by simp
next
  case (Suc n)
  from Suc.prems(2) have miss: "\<not> 2 ^ 52 * u \<le> x"
    by (auto split: if_splits)
  then have eq: "ulp_below (Suc n) u x = ulp_below n (u / 2) x"
    by simp
  have le: "ulp_below n (u / 2) x \<le> u / 2"
    using Suc.prems(1) by (intro ulp_below_le) simp
  show ?case
  proof (cases "ulp_below n (u / 2) x < u / 2")
    case True
    then show ?thesis
      unfolding eq using Suc.prems(1) by (intro Suc.IH) simp_all
  next
    case False
    with le have "ulp_below n (u / 2) x = u / 2" by simp
    then show ?thesis
      unfolding eq using miss by simp
  qed
qed

lemma ulp_below_power:
  "\<exists>j. i \<le> j \<and> ulp_below n (1 / 2 ^ i) x = 1 / 2 ^ j"
proof (induction n arbitrary: i)
  case 0
  then show ?case by auto
next
  case (Suc n)
  obtain j where j: "Suc i \<le> j" "ulp_below n (1 / 2 ^ Suc i) x = 1 / 2 ^ j"
    using Suc.IH [of "Suc i"] by blast
  show ?case
  proof (cases "2 ^ 52 * (1 / 2 ^ i) \<le> x")
    case True
    then show ?thesis by (intro exI [of _ i]) simp
  next
    case False
    have "(1::rat) / 2 ^ i / 2 = 1 / 2 ^ Suc i"
      by simp
    with False have "ulp_below (Suc n) (1 / 2 ^ i) x = ulp_below n (1 / 2 ^ Suc i) x"
      by (simp del: power_Suc)
    with j show ?thesis
      by (intro exI [of _ j]) simp
  qed
qed

lemma round_half_even_upper: "of_int (round_half_even q) \<le> q + 1 / 2"
proof -
  define f where "f = \<lfloor>q\<rfloor>"
  have lo: "of_int f \<le> q"
    by (simp add: f_def)
  have r: "round_half_even q =
             (if q - of_int f < 1 / 2 then f
              else if 1 / 2 < q - of_int f then f + 1
              else if even f then f else f + 1)"
    by (simp add: round_half_even_def Let_def f_def)
  show ?thesis
  proof (cases "q - of_int f < 1 / 2")
    case True
    with r lo show ?thesis by simp
  next
    case False
    then have "of_int f + 1 \<le> q + 1 / 2" by simp
    moreover have "round_half_even q \<le> f + 1"
      using r by simp
    then have "(of_int (round_half_even q) :: rat) \<le> of_int (f + 1)"
      by (simp only: of_int_le_iff)
    ultimately show ?thesis by simp
  qed
qed

lemma round_half_even_nonneg: "0 \<le> q \<Longrightarrow> 0 \<le> round_half_even q"
  by (auto simp: round_half_even_def Let_def)


lemma double_round_upper:
  assumes "0 \<le> x"
  shows "double_round x \<le> x + 1 / 2 ^ 34"
proof -
  define u where "u = ulp_below 1041 (1 / 2 ^ 33) x"
  have pos: "0 < u"
    unfolding u_def by (intro ulp_below_pos) simp
  have small: "u \<le> 1 / 2 ^ 33"
    unfolding u_def by (intro ulp_below_le) simp
  have "of_int (round_half_even (x / u)) * u \<le> (x / u + 1 / 2) * u"
    using round_half_even_upper [of "x / u"] pos by (intro mult_right_mono) simp_all
  also have "\<dots> = x + u / 2"
    using pos by (simp add: field_simps)
  also have "\<dots> \<le> x + 1 / 2 ^ 34"
    using small by simp
  finally show ?thesis
    by (simp add: double_round_def Let_def u_def)
qed

lemma double_round_nonneg:
  assumes "0 \<le> x"
  shows "0 \<le> double_round x"
proof -
  define u where "u = ulp_below 1041 (1 / 2 ^ 33) x"
  have pos: "0 < u"
    unfolding u_def by (intro ulp_below_pos) simp
  have "0 \<le> round_half_even (x / u)"
    using assms pos by (intro round_half_even_nonneg) simp
  then have "0 \<le> (of_int (round_half_even (x / u)) :: rat) * u"
    using pos by simp
  then show ?thesis
    by (simp add: double_round_def Let_def u_def)
qed

lemma Math_random_value_below_one:
  assumes "Math_random_value r"
  shows "r \<le> 1 - 1 / 2 ^ 53"
proof -
  from assms have r: "0 \<le> r" "r < 1" "double_round r = r"
    by (simp_all add: Math_random_value_def)
  define u where "u = ulp_below 1041 (1 / 2 ^ 33) r"
  define k where "k = round_half_even (r / u)"
  obtain j where j: "33 \<le> j" "u = 1 / 2 ^ j"
    using ulp_below_power [of 33 1041 r] unfolding u_def by blast
  have fixed: "of_int k * u = r"
    using r(3) by (simp add: double_round_def Let_def u_def k_def)
  show ?thesis
  proof (cases "j \<le> 53")
    case True
    have "of_int k = r * 2 ^ j"
      using fixed j(2) by (simp add: field_simps)
    also have "\<dots> < 2 ^ j"
      using r(2) by simp
    finally have "(of_int k :: rat) < of_int (2 ^ j)"
      by simp
    then have "k < 2 ^ j"
      by (simp only: of_int_less_iff)
    then have "k \<le> 2 ^ j - 1"
      by simp
    then have "(of_int k :: rat) \<le> of_int (2 ^ j - 1)"
      by (simp only: of_int_le_iff)
    then have "of_int k * u \<le> (2 ^ j - 1) * u"
      using j(2) by (intro mult_right_mono) simp_all
    also have "\<dots> = 1 - 1 / 2 ^ j"
      using j(2) by (simp add: field_simps)
    also have "\<dots> \<le> 1 - 1 / 2 ^ 53"
    proof -
      have "(2::rat) ^ j \<le> 2 ^ 53"
        using True by (intro power_increasing) simp_all
      then have "(1::rat) / 2 ^ 53 \<le> 1 / 2 ^ j"
        by (intro divide_left_mono) simp_all
      then show ?thesis by simp
    qed
    finally show ?thesis
      using fixed by simp
  next
    case False
    then have big: "54 \<le> j" by simp
    have "(2::rat) ^ 33 < 2 ^ j"
      using big by (intro power_strict_increasing) simp_all
    then have "u < 1 / 2 ^ 33"
      unfolding j(2) by (intro divide_strict_left_mono) simp_all
    then have "r < 2 ^ 52 * (2 * u)"
      unfolding u_def by (intro ulp_below_binade) simp_all
    also have "\<dots> = 2 ^ 53 / 2 ^ j"
      by (simp add: j(2))
    also have "\<dots> \<le> 2 ^ 53 / 2 ^ 54"
    proof -
      have "(2::rat) ^ 54 \<le> 2 ^ j"
        using big by (intro power_increasing) simp_all
      then show ?thesis
        by (intro divide_left_mono) simp_all
    qed
    finally show ?thesis by simp
  qed
qed

lemma generateNonce_range:
  assumes "Math_random_value r"
  shows "0 \<le> generateNonce r \<and> generateNonce r < 1000000"
proof -
  have r: "0 \<le> r" "r \<le> 1 - 1 / 2 ^ 53"
    using assms Math_random_value_below_one by (simp_all add: Math_random_value_def)
  have x0: "0 \<le> r * 1000000"
    using r(1) by simp
  have "r * 1000000 \<le> (1 - 1 / 2 ^ 53) * 1000000"
    using r(2) by (intro mult_right_mono) simp_all
  then have "double_round (r * 1000000) \<le> (1 - 1 / 2 ^ 53) * 1000000 + 1 / 2 ^ 34"
    using double_round_upper [OF x0] by simp
  also have "\<dots> < 1000000"
    by simp
  finally have up: "double_round (r * 1000000) < 1000000" .
  have lo: "0 \<le> double_round (r * 1000000)"
    using x0 by (rule double_round_nonneg)
  have "\<lfloor>double_round (r * 1000000)\<rfloor> < 1000000"
    using up by (simp add: floor_less_iff)
  moreover have "0 \<le> \<lfloor>double_round (r * 1000000)\<rfloor>"
    using lo by simp
  ultimately show ?thesis
    by (simp add: generateNonce_def)
qed

text \<open>
  C10. For every value the random source can return, the default nonce of
  \<open>generateNonce\<close> is a non-negative integer strictly below 1,000,000 (and so far below
  the \<open>2^64\<close> values of the record's nonce field). It is the nonce used when the caller
  omits one: \<open>createCreateGameInstruction\<close> without a nonce builds what it builds with
  that nonce given, and \<open>createGameWithDefaults\<close> without a nonce option does what it
  does with that nonce as the option.
\<close>

theorem generateNonce_below_million:
  assumes "Math_random_value random"
  shows "0 \<le> generateNonce random \<and> generateNonce random < 1000000
         \<and> generateNonce random < 2 ^ 64
         \<and> createCreateGameInstruction env random creator'
              (args\<lparr>CreateGameArgs.nonce := None\<rparr>) programId'
             = createCreateGameInstruction env random creator'
                 (args\<lparr>CreateGameArgs.nonce := Some (generateNonce random)\<rparr>) programId'
         \<and> createGameWithDefaults env w random now creator' wager' mint'
              (options\<lparr>PartialCreateGameArgs.nonce := None\<rparr>) programId'
             = createGameWithDefaults env w random now creator' wager' mint'
                 (options\<lparr>PartialCreateGameArgs.nonce := Some (generateNonce random)\<rparr>)
                 programId'"
proof -
  have range: "0 \<le> generateNonce random \<and> generateNonce random < 1000000"
    using assms by (rule generateNonce_range)
  then have "generateNonce random < 2 ^ 64"
    by simp
  moreover have "createCreateGameInstruction env random creator'
              (args\<lparr>CreateGameArgs.nonce := None\<rparr>) programId'
             = createCreateGameInstruction env random creator'
                 (args\<lparr>CreateGameArgs.nonce := Some (generateNonce random)\<rparr>) programId'"
    by (simp add: createCreateGameInstruction_def Let_def
        cong: sum.case_cong if_cong option.case_cong)
  moreover have "createGameWithDefaults env w random now creator' wager' mint'
              (options\<lparr>PartialCreateGameArgs.nonce := None\<rparr>) programId'
             = createGameWithDefaults env w random now creator' wager' mint'
                 (options\<lparr>PartialCreateGameArgs.nonce := Some (generateNonce random)\<rparr>)
                 programId'"
    by (simp add: createGameWithDefaults_def Let_def
        cong: sum.case_cong if_cong option.case_cong prod.case_cong)
  ultimately show ?thesis
    using range by blast
qed

theorem generateNonce_below_million_witness:
  "Math_random_value (1 - 1 / 2 ^ 53)
   \<and> generateNonce (1 - 1 / 2 ^ 53) = 999999
   \<and> 0 \<le> generateNonce (1 - 1 / 2 ^ 53) \<and> generateNonce (1 - 1 / 2 ^ 53) < 1000000"
proof -
  have v: "Math_random_value (1 - 1 / 2 ^ 53)"
    by code_simp
  have "generateNonce (1 - 1 / 2 ^ 53) = 999999"
    by code_simp
  then show ?thesis
    using v generateNonce_below_million [OF v] by simp
qed


end
